theory Spec2Isabelle
  imports Complex_Main "HOL-Library.Sublist"
begin

section \<open>The AI service of the resume builder: state and errors\<close>

text \<open>
  The service class \<^verbatim>\<open>AIService\<close> keeps a circuit breaker, a request-rate governor and a
  response cache in the fields of one process-wide object. The model passes that object
  explicitly. Times are milliseconds as \<open>int\<close>, counters are \<open>nat\<close>, a thrown
  \<^verbatim>\<open>Error(message)\<close> is a value of type \<open>error\<close>, and an \<^verbatim>\<open>async\<close> function that
  rejects returns \<open>Inl\<close>.
\<close>

datatype error = Error string | TypeError string

datatype circuit = CLOSED | OPEN | HALF_OPEN

text \<open>
  JavaScript values as they come back from \<^verbatim>\<open>JSON.parse\<close> and as the service returns them:
  an object is the list of its own properties in insertion order, each key once.
\<close>

datatype jsval =
    JUndefined
  | JNull
  | JBool bool
  | JNum real
  | JStr string
  | JArr "jsval list"
  | JObj "(string \<times> jsval) list"

text \<open>
  The cache key of \<^verbatim>\<open>getCacheKey\<close> is the JSON text of an object with six fixed fields;
  two such texts are equal exactly when the six values are, so the key is kept as the tuple
  (role, isFresher, skillsCount, experienceCount, projectsCount, educationField).
\<close>

type_synonym cache_key = "string \<times> bool \<times> nat \<times> nat \<times> nat \<times> string"

text \<open>
  The fields set by the constructor. \<open>genAI\<close> is \<open>True\<close> when a client was built from the
  API key (\<^verbatim>\<open>this.genAI !== null\<close>). \<open>remoteCalls\<close> is not a field of the class: it counts
  the invocations of \<^verbatim>\<open>model.generateContent\<close>, so that theorems can say whether the remote
  model was called.
\<close>

record service =
  genAI :: bool
  circuitState :: circuit
  failureCount :: nat
  nextTry :: int
  failureThreshold :: nat
  resetTimeout :: int
  cache :: "cache_key \<Rightarrow> jsval option"
  lastApiCall :: int
  minCallInterval :: int
  dailyCallCount :: nat
  dailyCallLimit :: nat
  lastResetDate :: string
  remoteCalls :: nat

text \<open>The object built by \<^verbatim>\<open>new AIService()\<close> on the day \<open>today\<close>.\<close>

definition newService :: "bool \<Rightarrow> string \<Rightarrow> service" where
  "newService hasKey today =
     \<lparr> genAI = hasKey, circuitState = CLOSED, failureCount = 0, nextTry = 0,
       failureThreshold = 3, resetTimeout = 60000, cache = (\<lambda>k. None),
       lastApiCall = 0, minCallInterval = 1000, dailyCallCount = 0,
       dailyCallLimit = 15, lastResetDate = today, remoteCalls = 0 \<rparr>"

section \<open>Quota and rate governor\<close>

text \<open>
  \<^verbatim>\<open>isDailyLimitReached\<close> reads the calendar day (\<^verbatim>\<open>new Date().toDateString()\<close>, here the
  argument \<open>today\<close>), resets the counter together with the stored date when the day
  differs, and compares the counter with the ceiling.
\<close>

definition isDailyLimitReached :: "string \<Rightarrow> service \<Rightarrow> bool \<times> service" where
  "isDailyLimitReached today s =
     (let s1 = (if today \<noteq> lastResetDate s
                then s\<lparr>dailyCallCount := 0, lastResetDate := today\<rparr> else s)
      in (dailyCallLimit s1 \<le> dailyCallCount s1, s1))"

text \<open>
  \<^verbatim>\<open>isAvailable\<close>: the conjunction short-circuits, so the daily check (and its reset) runs
  only when a client exists and the breaker is not open.
\<close>

definition isAvailable :: "string \<Rightarrow> service \<Rightarrow> bool \<times> service" where
  "isAvailable today s =
     (if genAI s \<and> circuitState s \<noteq> OPEN
      then (case isDailyLimitReached today s of (reached, s1) \<Rightarrow> (\<not> reached, s1))
      else (False, s))"

text \<open>
  \<^verbatim>\<open>withRateLimit\<close> waits until the minimum interval since the last call has passed, then
  stores the clock and increments the daily counter. \<open>rateLimitDelay\<close> is the delay it asks
  the timer for at clock \<open>now\<close>; \<open>later\<close> is the clock read after the wait.
\<close>

definition rateLimitDelay :: "int \<Rightarrow> service \<Rightarrow> int" where
  "rateLimitDelay now s =
     (let timeSinceLastCall = now - lastApiCall s
      in if timeSinceLastCall < minCallInterval s
         then minCallInterval s - timeSinceLastCall else 0)"

definition withRateLimit :: "int \<Rightarrow> service \<Rightarrow> service" where
  "withRateLimit later s = s\<lparr>lastApiCall := later, dailyCallCount := dailyCallCount s + 1\<rparr>"

text \<open>A run of reservations, one per clock reading.\<close>

definition reserveAll :: "int list \<Rightarrow> service \<Rightarrow> service" where
  "reserveAll ts s = fold withRateLimit ts s"

section \<open>Circuit breaker\<close>

definition recordFailure :: "int \<Rightarrow> service \<Rightarrow> service" where
  "recordFailure now s =
     (let s1 = s\<lparr>failureCount := failureCount s + 1\<rparr>
      in if failureThreshold s1 \<le> failureCount s1
         then s1\<lparr>circuitState := OPEN, nextTry := now + resetTimeout s1\<rparr>
         else s1)"

definition resetCircuit :: "service \<Rightarrow> service" where
  "resetCircuit s = s\<lparr>failureCount := 0, circuitState := CLOSED\<rparr>"

definition unavailableMessage :: string where
  "unavailableMessage = ''AI service temporarily unavailable. Please try again later.''"

text \<open>
  \<^verbatim>\<open>withCircuitBreaker(fn)\<close>. \<open>now\<close> is the clock at entry, \<open>later\<close> the clock when a failure
  of \<open>fn\<close> is recorded. The wrapped call takes the service and returns its outcome with the
  service as it left it. Both branches of the \<^verbatim>\<open>catch\<close> rethrow the error.
\<close>

definition withCircuitBreaker ::
  "int \<Rightarrow> int \<Rightarrow> (service \<Rightarrow> (error + 'a) \<times> service) \<Rightarrow> service \<Rightarrow> (error + 'a) \<times> service" where
  "withCircuitBreaker now later fn s =
     (if circuitState s = OPEN \<and> \<not> nextTry s < now
      then (Inl (Error unavailableMessage), s)
      else
        (let s1 = (if circuitState s = OPEN then s\<lparr>circuitState := HALF_OPEN\<rparr> else s)
         in case fn s1 of
              (Inr result, s2) \<Rightarrow>
                (Inr result, if circuitState s2 = HALF_OPEN then resetCircuit s2 else s2)
            | (Inl err, s2) \<Rightarrow> (Inl err, recordFailure later s2)))"

text \<open>
  A wrapped call as the service writes them: it may use the governor, the cache and the
  remote model, and leaves the breaker's own fields alone.
\<close>

definition keepsBreaker :: "(service \<Rightarrow> (error + 'a) \<times> service) \<Rightarrow> bool" where
  "keepsBreaker fn =
     (\<forall>s. circuitState (snd (fn s)) = circuitState s
        \<and> failureCount (snd (fn s)) = failureCount s
        \<and> nextTry (snd (fn s)) = nextTry s
        \<and> failureThreshold (snd (fn s)) = failureThreshold s
        \<and> resetTimeout (snd (fn s)) = resetTimeout s)"

definition alwaysFails :: "(service \<Rightarrow> (error + 'a) \<times> service) \<Rightarrow> bool" where
  "alwaysFails fn = (\<forall>s. \<exists>e. fst (fn s) = Inl e)"

definition alwaysSucceeds :: "(service \<Rightarrow> (error + 'a) \<times> service) \<Rightarrow> bool" where
  "alwaysSucceeds fn = (\<forall>s. \<exists>r. fst (fn s) = Inr r)"

text \<open>A remote call that is answered with an overload error, and one that is answered.\<close>

definition overloadedCall :: "service \<Rightarrow> (error + jsval) \<times> service" where
  "overloadedCall s = (Inl (Error ''503 overloaded''), s\<lparr>remoteCalls := remoteCalls s + 1\<rparr>)"

definition answeredCall :: "service \<Rightarrow> (error + jsval) \<times> service" where
  "answeredCall s = (Inr (JStr ''ok''), s\<lparr>remoteCalls := remoteCalls s + 1\<rparr>)"

text \<open>The service after three overloaded calls in a row, starting from a new one.\<close>

definition trippedService :: service where
  "trippedService =
     snd (withCircuitBreaker 300 301 overloadedCall
       (snd (withCircuitBreaker 200 201 overloadedCall
         (snd (withCircuitBreaker 100 101 overloadedCall
           (newService True ''Mon Nov 02 2026''))))))"

section \<open>Text repair: \<^verbatim>\<open>scrubJsonText\<close>\<close>

text \<open>
  Text is a list of code units; the model covers the code units below 256, one \<open>char\<close>
  each. \<open>isSpace\<close> is what both \<^verbatim>\<open>String.prototype.trim\<close> and the regular-expression class
  \<^verbatim>\<open>\s\<close> accept in that range: tab, line feed, vertical tab, form feed, carriage return,
  space and the no-break space. \<open>isControl\<close> is the class \<^verbatim>\<open>[\x00-\x1F\x7F]\<close>, and
  \<open>isLineTerminator\<close> is what the regular-expression dot refuses.
\<close>

definition isSpace :: "char \<Rightarrow> bool" where
  "isSpace c = (of_char c \<in> {9, 10, 11, 12, 13, 32, 160 :: nat})"

definition isControl :: "char \<Rightarrow> bool" where
  "isControl c = ((of_char c :: nat) \<le> 31 \<or> (of_char c :: nat) = 127)"

definition isLineTerminator :: "char \<Rightarrow> bool" where
  "isLineTerminator c = (of_char c \<in> {10, 13 :: nat})"

definition quote :: char where
  "quote = CHR 0x22"

definition backslash :: char where
  "backslash = CHR 0x5C"

definition newline :: char where
  "newline = CHR 0x0A"

definition trim :: "string \<Rightarrow> string" where
  "trim text = rev (dropWhile isSpace (rev (dropWhile isSpace text)))"

text \<open>\<^verbatim>\<open>text.includes(sub)\<close>: \<open>sub\<close> occurs in \<open>text\<close> as a block.\<close>

fun stringIncludes :: "string \<Rightarrow> string \<Rightarrow> bool" where
  "stringIncludes [] sub = (sub = [])"
| "stringIncludes (c # cs) sub = (prefix sub (c # cs) \<or> stringIncludes cs sub)"

text \<open>
  \<^verbatim>\<open>text.replace(/^```json\n?/, '')\<close>: the fence at the very start, with the line feed after it
  when there is one.
\<close>

definition stripOpeningFence :: "string \<Rightarrow> string" where
  "stripOpeningFence text =
     (if prefix ''```json'' text
      then (case drop 7 text of
              [] \<Rightarrow> []
            | c # cs \<Rightarrow> if c = newline then cs else c # cs)
      else text)"

text \<open>
  \<^verbatim>\<open>text.replace(/\n?```$/, '')\<close>: without the multiline flag the dollar is the end of the
  text, so the match is the final fence, and it starts at the line feed before the fence when
  there is one.
\<close>

definition stripClosingFence :: "string \<Rightarrow> string" where
  "stripClosingFence text =
     (if suffix ''```'' text
      then (let body = take (length text - 3) text
            in if body \<noteq> [] \<and> last body = newline then butlast body else body)
      else text)"

text \<open>\<^verbatim>\<open>text.replace(/\\"/g, '"')\<close>: every backslash-quote pair, left to right.\<close>

fun unescapeQuotes :: "string \<Rightarrow> string" where
  "unescapeQuotes (a # b # cs) =
     (if a = backslash \<and> b = quote then quote # unescapeQuotes cs
      else a # unescapeQuotes (b # cs))"
| "unescapeQuotes cs = cs"

text \<open>
  \<^verbatim>\<open>text.replace(/,\s*([}\]])/g, '$1')\<close>. At a comma the match succeeds exactly when the first
  character after the run of white space is a closing delimiter (giving white space back
  cannot help, a delimiter is not white space); the comma and the white space are dropped and
  the scan goes on behind the delimiter. Otherwise the character is kept and the scan moves
  one character on.
\<close>

function dropTrailingCommas :: "string \<Rightarrow> string" where
  "dropTrailingCommas [] = []"
| "dropTrailingCommas (c # cs) =
     (if c = CHR '',''
      then (case dropWhile isSpace cs of
              [] \<Rightarrow> c # dropTrailingCommas cs
            | d # ds \<Rightarrow>
                if d = CHR ''}'' \<or> d = CHR '']'' then d # dropTrailingCommas ds
                else c # dropTrailingCommas cs)
      else c # dropTrailingCommas cs)"
  by pat_completeness auto
termination
proof (relation "measure length")
  show "wf (measure length)" by simp
next
  fix c :: char and cs d ds
  assume "dropWhile isSpace cs = d # ds"
  then have "length (d # ds) \<le> length cs"
    using length_dropWhile_le [of isSpace cs] by simp
  then show "(ds, c # cs) \<in> measure length" by simp
qed simp_all

text \<open>
  \<^verbatim>\<open>text.replace(/(["}\]])\s*(["{])/g, '$1,$2')\<close>. At a quote or closing delimiter the match
  succeeds exactly when the first character after the run of white space is a quote or an
  opening brace; the two characters are written with a comma between them, the white space
  is dropped and the scan goes on behind the second character.
\<close>

function insertMissingCommas :: "string \<Rightarrow> string" where
  "insertMissingCommas [] = []"
| "insertMissingCommas (c # cs) =
     (if c = quote \<or> c = CHR ''}'' \<or> c = CHR '']''
      then (case dropWhile isSpace cs of
              [] \<Rightarrow> c # insertMissingCommas cs
            | d # ds \<Rightarrow>
                if d = quote \<or> d = CHR ''{''
                then c # CHR '','' # d # insertMissingCommas ds
                else c # insertMissingCommas cs)
      else c # insertMissingCommas cs)"
  by pat_completeness auto
termination
proof (relation "measure length")
  show "wf (measure length)" by simp
next
  fix c :: char and cs d ds
  assume "dropWhile isSpace cs = d # ds"
  then have "length (d # ds) \<le> length cs"
    using length_dropWhile_le [of isSpace cs] by simp
  then show "(ds, c # cs) \<in> measure length" by simp
qed simp_all

text \<open>\<^verbatim>\<open>text.replace(/[\x00-\x1F\x7F]/g, '')\<close>.\<close>

definition stripControl :: "string \<Rightarrow> string" where
  "stripControl text = filter (\<lambda>c. \<not> isControl c) text"

text \<open>
  \<^verbatim>\<open>text.replace(/"(.*?)"\s*\n\s*"(.*?)"$/g, '"$1","$2"')\<close>. The match ends at the end of the
  text, so there is at most one. \<open>matchSecondString\<close> reads what follows the quote that
  closes the first group: white space holding a line feed, a quote, the second group (no line
  terminator in it) and the final quote. \<open>matchFirstString\<close> tries the closing quotes of the
  first group from the nearest one on, the group holding no line terminator.
  \<open>joinSplitStrings\<close> tries the opening quotes from the left.
\<close>

definition matchSecondString :: "string \<Rightarrow> string option" where
  "matchSecondString rest =
     (if newline \<in> set (takeWhile isSpace rest)
      then (case dropWhile isSpace rest of
              [] \<Rightarrow> None
            | d # ds \<Rightarrow>
                if d = quote \<and> ds \<noteq> [] \<and> last ds = quote
                   \<and> \<not> (\<exists>x \<in> set (butlast ds). isLineTerminator x)
                then Some (butlast ds) else None)
      else None)"

fun matchFirstString :: "string \<Rightarrow> string \<Rightarrow> (string \<times> string) option" where
  "matchFirstString acc [] = None"
| "matchFirstString acc (c # cs) =
     (if c = quote
      then (case matchSecondString cs of
              Some second \<Rightarrow> Some (rev acc, second)
            | None \<Rightarrow> matchFirstString (c # acc) cs)
      else if isLineTerminator c then None
      else matchFirstString (c # acc) cs)"

fun joinSplitStrings :: "string \<Rightarrow> string" where
  "joinSplitStrings [] = []"
| "joinSplitStrings (c # cs) =
     (if c = quote
      then (case matchFirstString [] cs of
              Some (first, second) \<Rightarrow>
                [quote] @ first @ [quote, CHR '','', quote] @ second @ [quote]
            | None \<Rightarrow> c # joinSplitStrings cs)
      else c # joinSplitStrings cs)"

text \<open>
  The quote repair runs only when the text holds a backslash-quote pair and no
  backslash-backslash-quote triple.
\<close>

definition fixEscapedQuotes :: "string \<Rightarrow> string" where
  "fixEscapedQuotes text =
     (if stringIncludes text [backslash, quote]
         \<and> \<not> stringIncludes text [backslash, backslash, quote]
      then unescapeQuotes text else text)"

text \<open>
  The completion of braces and brackets: the four counts are taken first, then the missing
  closing braces are appended, then the missing closing brackets.
\<close>

definition completeDelimiters :: "string \<Rightarrow> string" where
  "completeDelimiters text =
     (let openBraces = count_list text (CHR ''{'');
          closeBraces = count_list text (CHR ''}'');
          openBrackets = count_list text (CHR ''['');
          closeBrackets = count_list text (CHR '']'');
          text1 = (if closeBraces < openBraces
                   then text @ replicate (openBraces - closeBraces) (CHR ''}'') else text);
          text2 = (if closeBrackets < openBrackets
                   then text1 @ replicate (openBrackets - closeBrackets) (CHR '']'') else text1)
      in text2)"

definition closeOpenString :: "string \<Rightarrow> string" where
  "closeOpenString text =
     (let quoteCount = count_list text quote
      in if quoteCount mod 2 \<noteq> 0 then text @ [quote] else text)"

text \<open>The whole repair, step after step in the order of the source.\<close>

definition scrubJsonText :: "string \<Rightarrow> string" where
  "scrubJsonText text0 =
     (let text1 = trim text0;
          text2 = stripClosingFence (stripOpeningFence text1);
          text3 = fixEscapedQuotes text2;
          text4 = dropTrailingCommas text3;
          text5 = insertMissingCommas text4;
          text6 = stripControl text5;
          text7 = completeDelimiters text6;
          text8 = joinSplitStrings text7
      in closeOpenString text8)"

text \<open>
  Text without the characters the repair rewrites: no quote, no comma, no backtick and no
  control character.
\<close>

definition plainText :: "string \<Rightarrow> bool" where
  "plainText text =
     (\<forall>c \<in> set text. c \<noteq> quote \<and> c \<noteq> CHR '','' \<and> c \<noteq> CHR 0x60 \<and> \<not> isControl c)"

section \<open>Resume data\<close>

text \<open>
  The request data follow the schemas the source declares (the Mongoose resume schema and
  the content schema of the generation request). A field that may be missing is an
  \<open>option\<close>, \<open>None\<close> standing for \<^verbatim>\<open>undefined\<close>; the name of a project, the title of an
  achievement and the position of an experience are the strings the content schema requires.
  A field that the service only copies is not listed.
\<close>

record personal_info =
  info_summary :: "string option"
  info_objective :: "string option"
  info_email :: "string option"
  info_phone :: "string option"

record skill_set =
  technical :: "string list option"
  languages :: "string list option"

record education_entry =
  edu_institution :: "string option"
  edu_degree :: "string option"
  edu_field :: "string option"
  edu_gpa :: "string option"
  edu_description :: "string option"
  edu_achievements :: "string list option"

text \<open>The description of an experience is a text or a list of bullet points.\<close>

datatype description = DescriptionText string | DescriptionList "string list"

record experience_entry =
  exp_company :: "string option"
  exp_position :: string
  exp_description :: "description option"
  exp_achievements :: "string list option"

record project =
  proj_name :: string
  proj_description :: "string option"
  proj_technologies :: "string list option"
  proj_outcomes :: "string list option"

record achievement =
  ach_title :: string
  ach_description :: "string option"
  ach_date :: "string option"

record resume_data =
  personalInfo :: "personal_info option"
  skills :: "skill_set option"
  education :: "education_entry list option"
  experience :: "experience_entry list option"
  projects :: "project list option"
  achievements :: "achievement list option"
  roleApplyingFor :: "string option"
  isFresher :: bool

text \<open>
  What the runtime provides. \<open>numberToString\<close> renders a number in a template literal,
  \<open>parseFloat\<close> is \<open>None\<close> for \<^verbatim>\<open>NaN\<close>, \<open>JSON_parse\<close> is \<open>None\<close> when \<^verbatim>\<open>JSON.parse\<close> throws,
  \<open>fadd\<close> and \<open>fdiv\<close> are the addition and division of doubles, and \<open>bulletSign\<close> is
  the text of the bullet sign of the section enhancer, whose code unit lies above 255. A real
  number stands for the double nearest to it.
\<close>

record platform =
  numberToString :: "real \<Rightarrow> string"
  parseFloat :: "string \<Rightarrow> real option"
  JSON_parse :: "string \<Rightarrow> jsval option"
  fadd :: "real \<Rightarrow> real \<Rightarrow> real"
  fdiv :: "real \<Rightarrow> real \<Rightarrow> real"
  bulletSign :: string

subsection \<open>Truthiness, defaults and strings\<close>

text \<open>
  \<^verbatim>\<open>x || y\<close> on a string that may be missing: the string when it is there and not empty.
  An array is truthy even when empty, so \<^verbatim>\<open>xs || ys\<close> is \<open>xs\<close> whenever it is there.
\<close>

definition populated :: "string option \<Rightarrow> bool" where
  "populated x = (case x of None \<Rightarrow> False | Some s \<Rightarrow> s \<noteq> [])"

definition orElse :: "string option \<Rightarrow> string \<Rightarrow> string" where
  "orElse x y = (case x of None \<Rightarrow> y | Some s \<Rightarrow> if s \<noteq> [] then s else y)"

definition orElseList :: "'a list option \<Rightarrow> 'a list \<Rightarrow> 'a list" where
  "orElseList x y = (case x of None \<Rightarrow> y | Some xs \<Rightarrow> xs)"

text \<open>A value that may be missing inside a template literal.\<close>

definition interpolate :: "string option \<Rightarrow> string" where
  "interpolate x = (case x of None \<Rightarrow> ''undefined'' | Some s \<Rightarrow> s)"

text \<open>\<^verbatim>\<open>xs.join(sep)\<close> and \<^verbatim>\<open>xs.length || 0\<close>.\<close>

fun join :: "string \<Rightarrow> string list \<Rightarrow> string" where
  "join sep [] = []"
| "join sep [x] = x"
| "join sep (x # y # ys) = x @ sep @ join sep (y # ys)"

definition lengthOrZero :: "'a list option \<Rightarrow> nat" where
  "lengthOrZero x = (case x of None \<Rightarrow> 0 | Some xs \<Rightarrow> length xs)"

text \<open>
  \<^verbatim>\<open>toLowerCase\<close> on code units below 256: the letters A to Z and the capital letters of
  Latin-1 (192 to 222 without the multiplication sign 215) move up by 32.
\<close>

definition lowerChar :: "char \<Rightarrow> char" where
  "lowerChar c =
     (let n = (of_char c :: nat)
      in if (65 \<le> n \<and> n \<le> 90) \<or> (192 \<le> n \<and> n \<le> 222 \<and> n \<noteq> 215)
         then char_of (n + 32) else c)"

definition toLowerCase :: "string \<Rightarrow> string" where
  "toLowerCase s = map lowerChar s"

text \<open>The first entry of a list that may be missing or empty: \<^verbatim>\<open>education?.[0]\<close>.\<close>

definition firstEntry :: "'a list option \<Rightarrow> 'a option" where
  "firstEntry x = (case x of Some (e # es) \<Rightarrow> Some e | _ \<Rightarrow> None)"

text \<open>\<^verbatim>\<open>skills?.technical\<close>.\<close>

definition technicalOf :: "skill_set option \<Rightarrow> string list option" where
  "technicalOf sk = (case sk of None \<Rightarrow> None | Some s \<Rightarrow> technical s)"

text \<open>A lookup in an object literal used as a table, with the default behind \<^verbatim>\<open>||\<close>.\<close>

definition lookupOr :: "(string \<times> 'a) list \<Rightarrow> string \<Rightarrow> 'a \<Rightarrow> 'a" where
  "lookupOr table key dflt = (case map_of table key of None \<Rightarrow> dflt | Some v \<Rightarrow> v)"

section \<open>Local synthesis engine\<close>

text \<open>
  The tables of the source are association lists; a role or category that is not a key
  gives the default behind \<^verbatim>\<open>||\<close>. A role that names a property every object inherits
  (such as \<^verbatim>\<open>constructor\<close>) is outside the model. Console output is left out.
\<close>

subsection \<open>Summary and objective\<close>

definition skillListOr :: "skill_set option \<Rightarrow> nat \<Rightarrow> string \<Rightarrow> string \<Rightarrow> string" where
  "skillListOr sk n sep dflt =
     (case technicalOf sk of
        None \<Rightarrow> dflt
      | Some ts \<Rightarrow> orElse (Some (join sep (take n ts))) dflt)"

definition fresherSummaries :: "string \<Rightarrow> (string \<times> string) list" where
  "fresherSummaries skillList =
      [(''Software Engineer'',
        ''Recent Computer Science graduate with strong foundation in '' @
        skillList @
        ''. Passionate about developing innovative software solutions and eager '' @
        ''to apply academic knowledge to real-world challenges. Seeking to '' @
        ''contribute fresh perspectives and grow within a dynamic development '' @
        ''team.''),
       (''Frontend Developer'',
        ''Creative and detail-oriented graduate with expertise in '' @
        skillList @
        ''. Passionate about creating intuitive user interfaces and exceptional '' @
        ''user experiences. Eager to apply modern frontend development skills '' @
        ''to build engaging web applications.''),
       (''Backend Developer'',
        ''Analytical and problem-solving graduate with strong foundation in '' @
        skillList @
        ''. Passionate about building robust server-side applications and '' @
        ''optimizing system performance. Seeking to apply backend development '' @
        ''skills to create scalable solutions.''),
       (''Full Stack Developer'',
        ''Versatile and motivated graduate with comprehensive skills in '' @
        skillList @
        ''. Passionate about end-to-end development and creating complete web '' @
        ''solutions. Eager to contribute to both frontend and backend '' @
        ''development projects.''),
       (''Data Scientist'',
        ''Analytical graduate with strong foundation in '' @
        skillList @
        '' and statistical analysis. Passionate about extracting insights from '' @
        ''data and building predictive models. Seeking to apply data science '' @
        ''skills to solve complex business problems.''),
       (''Product Manager'',
        ''Strategic and communication-focused graduate with understanding of '' @
        skillList @
        ''. Passionate about product development and user-centric solutions. '' @
        ''Eager to apply analytical and leadership skills to drive product '' @
        ''success.'')]"

definition experiencedSummaries :: "string \<Rightarrow> string \<Rightarrow> (string \<times> string) list" where
  "experiencedSummaries expCount skillList =
      [(''Software Engineer'',
        ''Results-driven Software Engineer with '' @
        expCount @
        ''+ years of experience in '' @
        skillList @
        ''. Proven track record of delivering high-quality software solutions '' @
        ''and leading development projects. Passionate about code optimization, '' @
        ''mentorship, and implementing best practices.''),
       (''Frontend Developer'',
        ''Creative Frontend Developer with '' @
        expCount @
        ''+ years of expertise in '' @
        skillList @
        ''. Specialized in building responsive, user-centric interfaces and '' @
        ''enhancing user experience. Committed to staying current with frontend '' @
        ''trends and accessibility standards.''),
       (''Backend Developer'',
        ''Experienced Backend Developer with '' @
        expCount @
        ''+ years specializing in '' @
        skillList @
        ''. Expert in designing scalable architectures, optimizing database '' @
        ''performance, and implementing robust API solutions. Focus on system '' @
        ''reliability and security.''),
       (''Full Stack Developer'',
        ''Versatile Full Stack Developer with '' @
        expCount @
        ''+ years of comprehensive experience in '' @
        skillList @
        ''. Proven ability to handle end-to-end development from concept to '' @
        ''deployment. Passionate about creating seamless user experiences and '' @
        ''robust backend systems.''),
       (''Data Scientist'',
        ''Experienced Data Scientist with '' @
        expCount @
        ''+ years in '' @
        skillList @
        '' and machine learning. Expert in data analysis, model development, '' @
        ''and generating actionable insights. Track record of driving '' @
        ''data-driven decision making and business value.''),
       (''Product Manager'',
        ''Strategic Product Manager with '' @
        expCount @
        ''+ years of experience in product lifecycle management. Skilled in '' @
        ''cross-functional collaboration, user research, and driving product '' @
        ''vision. Proven ability to deliver products that meet market needs and '' @
        ''business objectives.'')]"

definition generateSummary ::
  "platform \<Rightarrow> personal_info option \<Rightarrow> skill_set option \<Rightarrow> experience_entry list option \<Rightarrow>
   bool \<Rightarrow> string option \<Rightarrow> string" where
  "generateSummary P info sk exps fresher role =
     (if \<not> populated role \<or> role = Some ''Professional''
      then orElse (case info of None \<Rightarrow> None | Some i \<Rightarrow> info_summary i)
        (''Professional with expertise in various fields. Committed to '' @
         ''delivering high-quality results and continuous learning.'')
      else
        (let skillList = skillListOr sk 3 '', '' ''programming'';
             roleSpecific = interpolate role;
             expCount = numberToString P (real (lengthOrZero exps))
         in if fresher
            then lookupOr (fresherSummaries skillList) roleSpecific
              (''Recent '' @
               roleSpecific @
               '' graduate with strong foundation in '' @
               skillList @
               ''. Eager to apply academic knowledge and passion for technology to '' @
               ''contribute to innovative projects and grow within a dynamic team.'')
            else lookupOr (experiencedSummaries expCount skillList) roleSpecific
              (''Experienced '' @
               roleSpecific @
               '' with expertise in '' @
               skillList @
               ''. Proven track record of delivering high-quality solutions and '' @
               ''driving project success.'')))"

definition generateObjective ::
  "personal_info option \<Rightarrow> education_entry list option \<Rightarrow> skill_set option \<Rightarrow> string option \<Rightarrow>
   string" where
  "generateObjective info edus sk role =
     ''Recent graduate seeking an entry-level '' @
     interpolate role @
     '' position to leverage academic background in '' @
     orElse (case firstEntry edus of None \<Rightarrow> None | Some e \<Rightarrow> edu_field e)
       ''Computer Science'' @
     '' and technical skills in '' @
     skillListOr sk 2 '' and '' ''software development'' @
     ''.''"

subsection \<open>Education\<close>

text \<open>\<^verbatim>\<open>x?.toLowerCase().includes(word)\<close> on a string that may be missing.\<close>

definition mentions :: "string option \<Rightarrow> string \<Rightarrow> bool" where
  "mentions x word = (case x of None \<Rightarrow> False | Some s \<Rightarrow> stringIncludes (toLowerCase s) word)"

definition gpaAtLeast :: "platform \<Rightarrow> string option \<Rightarrow> real \<Rightarrow> bool" where
  "gpaAtLeast P gpa bound =
     (populated gpa \<and>
      (case parseFloat P (interpolate gpa) of None \<Rightarrow> False | Some g \<Rightarrow> bound \<le> g))"

definition generateEducationAchievements :: "platform \<Rightarrow> education_entry \<Rightarrow> string list" where
  "generateEducationAchievements P edu =
     (if gpaAtLeast P (edu_gpa edu) 3.5
      then [''Graduated with GPA: '' @
            interpolate (edu_gpa edu)] else [])
     @ (if mentions (edu_degree edu) ''computer'' \<or> mentions (edu_field edu) ''computer''
        then [''Completed comprehensive coursework in algorithms, data structures, '' @
              ''and software engineering''] else [])
     @ (if mentions (edu_degree edu) ''business'' \<or> mentions (edu_field edu) ''business''
        then [''Completed core business curriculum with focus on strategic management '' @
              ''and leadership''] else [])
     @ [''Successfully completed academic program with strong performance'']"

definition courseSummaries :: "(string \<times> (string \<times> string) list) list" where
  "courseSummaries =
     [(''Computer Science'',
       [(''Software Engineer'',
        ''Completed rigorous coursework in software engineering principles, '' @
        ''algorithms, data structures, and system design. Developed strong '' @
        ''foundation in programming languages, database management, and '' @
        ''software development methodologies. Gained hands-on experience '' @
        ''through lab sessions and collaborative projects focusing on scalable '' @
        ''application development.''),
       (''Frontend Developer'',
        ''Focused on web development, user interface design, and interactive '' @
        ''systems. Studied JavaScript frameworks, responsive design principles, '' @
        ''and modern frontend technologies. Completed projects emphasizing user '' @
        ''experience design, accessibility standards, and performance '' @
        ''optimization for web applications.''),
       (''Backend Developer'',
        ''Specialized in server-side architecture, database systems, and API '' @
        ''development. Completed coursework in distributed systems, cloud '' @
        ''computing, and backend optimization. Gained practical experience in '' @
        ''building scalable server solutions and managing complex data '' @
        ''infrastructures.''),
       (''Data Scientist'',
        ''Emphasized statistical analysis, machine learning, and data '' @
        ''visualization. Studied advanced mathematics, programming for data '' @
        ''analysis, and predictive modeling techniques. Completed hands-on '' @
        ''projects working with real datasets to extract actionable insights '' @
        ''and build predictive models.'')]),
      (''Business Administration'',
       [(''Product Manager'',
        ''Completed comprehensive business curriculum with focus on product '' @
        ''strategy, market analysis, and project management. Developed skills '' @
        ''in business intelligence, user research, and cross-functional '' @
        ''leadership. Participated in case studies analyzing successful product '' @
        ''launches and go-to-market strategies.''),
       (''Software Engineer'',
        ''Combined business acumen with technical foundation. Studied business '' @
        ''process optimization, technology management, and strategic planning '' @
        ''for tech organizations. Gained understanding of how technical '' @
        ''solutions drive business value and competitive advantage.'')]),
      (''Information Technology'',
       [(''Software Engineer'',
        ''Gained practical experience in system administration, network '' @
        ''management, and IT infrastructure. Developed understanding of '' @
        ''enterprise systems and technology operations. Completed hands-on labs '' @
        ''focusing on system security, cloud deployment, and IT service '' @
        ''management.''),
       (''Backend Developer'',
        ''Focused on infrastructure, cloud services, and system architecture. '' @
        ''Studied DevOps principles, security protocols, and scalable system '' @
        ''design. Acquired skills in managing complex IT environments and '' @
        ''optimizing system performance.'')])]"

definition generateCourseSummary :: "education_entry list option \<Rightarrow> string option \<Rightarrow> string" where
  "generateCourseSummary edus targetRole =
     (case firstEntry edus of
        None \<Rightarrow> []
      | Some edu \<Rightarrow>
          (let field = orElse (edu_field edu) ''General Studies'';
               degree = orElse (edu_degree edu) ''Degree'';
               defaultSummary =
                 ''Pursued '' @
                 degree @
                 '' in '' @
                 field @
                 '' with comprehensive curriculum covering foundational principles and '' @
                 ''practical applications. Developed analytical thinking, '' @
                 ''problem-solving abilities, and domain expertise relevant to '' @
                 orElse targetRole ''professional roles'' @
                 '' through coursework, projects, and collaborative learning experiences.'';
               fieldSummaries = lookupOr courseSummaries field []
           in lookupOr fieldSummaries (interpolate targetRole) defaultSummary))"

subsection \<open>Experience\<close>

definition getPositionType :: "string \<Rightarrow> string" where
  "getPositionType position =
     (let pos = toLowerCase position
      in if stringIncludes pos ''software'' \<or> stringIncludes pos ''developer''
            \<or> stringIncludes pos ''engineer'' then ''Software Engineer''
         else if stringIncludes pos ''frontend'' \<or> stringIncludes pos ''ui''
            \<or> stringIncludes pos ''ux'' then ''Frontend Developer''
         else if stringIncludes pos ''backend'' \<or> stringIncludes pos ''server''
            \<or> stringIncludes pos ''api'' then ''Backend Developer''
         else if stringIncludes pos ''product'' \<or> stringIncludes pos ''manager''
         then ''Product Manager''
         else ''General'')"

definition achievementTemplates :: "(string \<times> string list) list" where
  "achievementTemplates =
      [(''Software Engineer'',
        [''Developed and deployed production-ready code following best practices'',
        ''Collaborated in agile teams to deliver features on schedule'',
        ''Optimized application performance improving user experience'',
        ''Participated in code reviews ensuring quality standards'']),
       (''Frontend Developer'',
        [''Built responsive user interfaces with modern frameworks'',
        ''Improved website performance and accessibility standards'',
        ''Collaborated with UX teams to implement design systems'',
        ''Developed reusable components following best practices'']),
       (''Backend Developer'',
        [''Designed and implemented RESTful APIs and microservices'',
        ''Optimized database queries improving system performance'',
        ''Ensured system security and data protection protocols'',
        ''Managed cloud infrastructure and deployment pipelines'']),
       (''Product Manager'',
        [''Led product strategy and roadmap development'',
        ''Conducted user research and market analysis'',
        ''Collaborated with cross-functional teams for product delivery'',
        ''Defined product requirements and success metrics''])]"

definition generateExperienceAchievements :: "experience_entry \<Rightarrow> skill_set option \<Rightarrow> string list" where
  "generateExperienceAchievements entry sk =
     (let positionType = getPositionType (exp_position entry);
          defaultAchievements =
            [''Successfully contributed to '' @
             exp_position entry @
             '' responsibilities'',
             ''Collaborated effectively with team members'',
             ''Demonstrated problem-solving skills'']
      in lookupOr achievementTemplates positionType defaultAchievements)"

subsection \<open>Achievements\<close>

definition getAchievementType :: "string \<Rightarrow> string" where
  "getAchievementType title =
     (let t = toLowerCase title
      in if stringIncludes t ''certified'' \<or> stringIncludes t ''certification''
         then ''Certification''
         else if stringIncludes t ''award'' \<or> stringIncludes t ''recognition''
            \<or> stringIncludes t ''employee'' then ''Award''
         else if stringIncludes t ''leadership'' \<or> stringIncludes t ''lead''
            \<or> stringIncludes t ''manager'' then ''Leadership''
         else if stringIncludes t ''hackathon'' \<or> stringIncludes t ''project''
            \<or> stringIncludes t ''technical'' then ''Technical''
         else if stringIncludes t ''dean'' \<or> stringIncludes t ''scholar''
            \<or> stringIncludes t ''academic'' then ''Academic''
         else ''General'')"

definition achievementDescriptions :: "string \<Rightarrow> (string \<times> string) list" where
  "achievementDescriptions title =
      [(''Certification'',
        ''Successfully achieved '' @
        title @
        '' demonstrating expertise and commitment to professional development. '' @
        ''Validated advanced skills through comprehensive examination and '' @
        ''practical application. This certification confirms proficiency in '' @
        ''industry best practices and cutting-edge technologies relevant to '' @
        ''modern workplace demands.''),
       (''Award'',
        ''Recognized with '' @
        title @
        '' for outstanding performance and significant contributions to the '' @
        ''organization. This honor reflects exceptional dedication to '' @
        ''excellence, innovation, and consistent delivery of high-quality '' @
        ''results. Selected among peers for demonstrating leadership qualities '' @
        ''and going beyond expectations.''),
       (''Leadership'',
        ''Demonstrated exceptional leadership abilities earning '' @
        title @
        ''. Successfully guided cross-functional teams, drove strategic '' @
        ''initiatives, and delivered measurable results through visionary '' @
        ''planning and effective execution. Fostered collaborative environment '' @
        ''and mentored team members to achieve collective goals.''),
       (''Technical'',
        ''Achieved '' @
        title @
        '' showcasing advanced technical proficiency and innovative '' @
        ''problem-solving capabilities. Applied cutting-edge solutions to '' @
        ''complex challenges, resulting in improved system performance, reduced '' @
        ''costs, or enhanced user experience. Demonstrated mastery of modern '' @
        ''technologies and best practices.''),
       (''Academic'',
        ''Earned '' @
        title @
        '' through academic excellence and scholarly achievement. Demonstrated '' @
        ''strong analytical abilities, intellectual curiosity, and dedication '' @
        ''to learning. This accomplishment reflects deep understanding of '' @
        ''subject matter and ability to apply theoretical knowledge to '' @
        ''practical scenarios.'')]"

definition enhanceAchievementDescription :: "achievement \<Rightarrow> string" where
  "enhanceAchievementDescription ach =
     (if populated (ach_description ach) then interpolate (ach_description ach)
      else
        (let achievementType = getAchievementType (ach_title ach)
         in lookupOr (achievementDescriptions (ach_title ach)) achievementType
              (''Achieved '' @
               ach_title ach @
               '' through dedication, skill development, and consistent performance. '' @
               ''This accomplishment demonstrates commitment to excellence, continuous '' @
               ''learning, and the ability to deliver outstanding results in '' @
               ''challenging environments. Recognized for valuable contributions and '' @
               ''positive impact on organizational objectives.'')))"

subsection \<open>Projects\<close>

definition getProjectType :: "string \<Rightarrow> string" where
  "getProjectType projectName =
     (let name = toLowerCase projectName
      in if stringIncludes name ''ecommerce'' \<or> stringIncludes name ''shop''
            \<or> stringIncludes name ''store'' then ''E-commerce''
         else if stringIncludes name ''social'' \<or> stringIncludes name ''chat''
            \<or> stringIncludes name ''messaging'' then ''Social Media''
         else if stringIncludes name ''ai'' \<or> stringIncludes name ''machine''
            \<or> stringIncludes name ''ml'' \<or> stringIncludes name ''prediction'' then ''AI/ML''
         else if stringIncludes name ''app'' \<and> (stringIncludes name ''mobile''
            \<or> stringIncludes name ''ios'' \<or> stringIncludes name ''android'') then ''Mobile App''
         else if stringIncludes name ''dashboard'' \<or> stringIncludes name ''analytics''
            \<or> stringIncludes name ''visualization'' then ''Dashboard''
         else if stringIncludes name ''web'' \<or> stringIncludes name ''website''
            \<or> stringIncludes name ''portal'' then ''Web App''
         else ''General'')"

definition projectDescriptions :: "string \<Rightarrow> (string \<times> string) list" where
  "projectDescriptions techList =
      [(''E-commerce'',
        ''Developed a full-featured e-commerce platform utilizing '' @
        techList @
        ''. Implemented secure payment processing, user authentication, and '' @
        ''responsive design to deliver seamless shopping experience. Engineered '' @
        ''scalable architecture supporting high-traffic transactions and '' @
        ''real-time inventory management.''),
       (''Social Media'',
        ''Built a dynamic social media application using '' @
        techList @
        ''. Engineered real-time messaging, content sharing, and user '' @
        ''engagement features with scalable architecture. Implemented robust '' @
        ''notification system and optimized database performance for seamless '' @
        ''user interactions.''),
       (''AI/ML'',
        ''Created an intelligent AI-powered solution leveraging '' @
        techList @
        ''. Implemented machine learning algorithms, data processing pipelines, '' @
        ''and predictive analytics for actionable insights. Developed automated '' @
        ''model training pipeline and achieved high accuracy in prediction '' @
        ''tasks.''),
       (''Mobile App'',
        ''Developed a cross-platform mobile application using '' @
        techList @
        ''. Designed intuitive user interfaces, offline functionality, and '' @
        ''optimized performance for mobile devices. Successfully deployed to '' @
        ''app stores with positive user ratings and minimal crash reports.''),
       (''Web App'',
        ''Architected and deployed a responsive web application with '' @
        techList @
        ''. Focused on user experience, performance optimization, and scalable '' @
        ''backend integration. Implemented progressive web app features and '' @
        ''ensured cross-browser compatibility.''),
       (''Dashboard'',
        ''Engineered a comprehensive analytics dashboard using '' @
        techList @
        ''. Visualized complex data, implemented real-time updates, and created '' @
        ''actionable business intelligence tools. Developed interactive charts '' @
        ''and customizable reporting features.'')]"

definition enhanceProjectDescription :: "project \<Rightarrow> skill_set option \<Rightarrow> string" where
  "enhanceProjectDescription proj sk =
     (if populated (proj_description proj) then interpolate (proj_description proj)
      else
        (let techList =
               (case proj_technologies proj of
                  None \<Rightarrow> ''modern tools''
                | Some ts \<Rightarrow> orElse (Some (join '', '' (take 3 ts))) ''modern tools'');
             projectType = getProjectType (proj_name proj)
         in lookupOr (projectDescriptions techList) projectType
              (''Developed '' @
               proj_name proj @
               '' utilizing technologies including '' @
               techList @
               ''. Focused on delivering high-quality solutions with attention to user '' @
               ''experience, technical excellence, and scalable architecture. '' @
               ''Implemented best practices and modern development methodologies '' @
               ''throughout the project lifecycle.'')))"

definition outcomeTemplates :: "(string \<times> string list) list" where
  "outcomeTemplates =
      [(''E-commerce'',
        [''Increased conversion rates by 25% through optimized user flow'',
        ''Reduced page load time by 40% improving user experience'',
        ''Successfully processed 1000+ transactions with zero errors'']),
       (''Social Media'',
        [''Achieved 500+ active users within first month of launch'',
        ''Implemented real-time messaging with 99.9% uptime'',
        ''Reduced server response time by 60% through optimization'']),
       (''AI/ML'',
        [''Achieved 92% accuracy in predictive modeling'',
        ''Processed 1M+ data points with automated pipeline'',
        ''Reduced manual analysis time by 80% through automation'']),
       (''Mobile App'',
        [''Achieved 4.8-star rating with 10K+ downloads'',
        ''Optimized battery usage resulting in 30% longer device life'',
        ''Successfully deployed to both iOS and Android platforms'']),
       (''Web App'',
        [''Improved user engagement by 45% with intuitive design'',
        ''Achieved 99.5% uptime with robust error handling'',
        ''Reduced bounce rate by 35% through performance optimization'']),
       (''Dashboard'',
        [''Enabled data-driven decisions reducing analysis time by 70%'',
        ''Visualized 10K+ data points with real-time updates'',
        ''Improved team productivity by 40% with actionable insights''])]"

definition generateProjectOutcomes :: "project \<Rightarrow> string list" where
  "generateProjectOutcomes proj =
     (let projectType = getProjectType (proj_name proj);
          defaultOutcomes =
            [''Successfully delivered project on time and within budget'',
            ''Met all specified requirements and exceeded expectations'',
            ''Demonstrated technical proficiency and problem-solving skills'']
      in lookupOr outcomeTemplates projectType defaultOutcomes)"

subsection \<open>Improvements\<close>

definition generateImprovements ::
  "personal_info option \<Rightarrow> skill_set option \<Rightarrow> experience_entry list option \<Rightarrow> bool \<Rightarrow>
   string option \<Rightarrow> string list" where
  "generateImprovements info sk exps fresher role =
     take 3
       ((if \<not> populated (case info of None \<Rightarrow> None | Some i \<Rightarrow> info_summary i)
         then [''Add a professional summary to highlight your strengths''] else [])
        @ (case technicalOf sk of
             None \<Rightarrow> []
           | Some ts \<Rightarrow>
               if length ts < 5
               then [''Consider adding more technical skills to showcase your expertise''] else [])
        @ (if fresher \<and> lengthOrZero exps = 0
           then [''Add internships or relevant projects to strengthen your profile''] else [])
        @ [''Quantify achievements with specific metrics when possible''])"

subsection \<open>Enrichment of a whole resume\<close>

text \<open>
  \<^verbatim>\<open>{...proj, description: proj.description || ..., outcomes: proj.outcomes || ...}\<close>: the copy
  of an item with the named fields set. The other records are enriched the same way.
\<close>

definition enrichProject :: "skill_set option \<Rightarrow> project \<Rightarrow> project" where
  "enrichProject sk proj =
     proj\<lparr> proj_description :=
             Some (orElse (proj_description proj) (enhanceProjectDescription proj sk)),
           proj_outcomes :=
             Some (orElseList (proj_outcomes proj) (generateProjectOutcomes proj)) \<rparr>"

definition enrichAchievement :: "achievement \<Rightarrow> achievement" where
  "enrichAchievement ach =
     ach\<lparr> ach_description :=
            Some (orElse (ach_description ach) (enhanceAchievementDescription ach)) \<rparr>"

definition enrichEducation ::
  "platform \<Rightarrow> education_entry list option \<Rightarrow> string option \<Rightarrow> education_entry \<Rightarrow>
   education_entry" where
  "enrichEducation P edus role edu =
     edu\<lparr> edu_achievements :=
            Some (orElseList (edu_achievements edu) (generateEducationAchievements P edu)),
          edu_description :=
            Some (orElse (edu_description edu) (generateCourseSummary edus role)) \<rparr>"

definition enrichExperience :: "skill_set option \<Rightarrow> experience_entry \<Rightarrow> experience_entry" where
  "enrichExperience sk entry =
     entry\<lparr> exp_achievements :=
              Some (orElseList (exp_achievements entry)
                      (generateExperienceAchievements entry sk)) \<rparr>"

text \<open>The object \<^verbatim>\<open>enhancedContent\<close> built by \<^verbatim>\<open>enhanceContentLocally\<close>.\<close>

record enhanced_content =
  ec_summary :: string
  ec_objective :: "string option"
  ec_education :: "education_entry list"
  ec_experience :: "experience_entry list"
  ec_technical :: "string list"
  ec_language :: "string list"
  ec_projects :: "project list"
  ec_achievements :: "achievement list"
  ec_certifications :: "jsval list"
  ec_improvements :: "string list"
  ec_courseSummary :: string

definition effectiveRole :: "resume_data \<Rightarrow> string" where
  "effectiveRole data = orElse (roleApplyingFor data) ''Professional''"

definition summaryOf :: "personal_info option \<Rightarrow> string option" where
  "summaryOf info = (case info of None \<Rightarrow> None | Some i \<Rightarrow> info_summary i)"

definition objectiveOf :: "personal_info option \<Rightarrow> string option" where
  "objectiveOf info = (case info of None \<Rightarrow> None | Some i \<Rightarrow> info_objective i)"

definition enhancedContent :: "platform \<Rightarrow> resume_data \<Rightarrow> enhanced_content" where
  "enhancedContent P data =
     (let role = Some (effectiveRole data)
      in \<lparr> ec_summary =
             orElse (summaryOf (personalInfo data))
               (generateSummary P (personalInfo data) (skills data) (experience data)
                  (isFresher data) role),
           ec_objective =
             (if isFresher data
              then Some (generateObjective (personalInfo data) (education data) (skills data) role)
              else None),
           ec_education =
             orElseList
               (map_option (map (enrichEducation P (education data) role)) (education data)) [],
           ec_experience =
             (if isFresher data then []
              else orElseList
                     (map_option (map (enrichExperience (skills data))) (experience data)) []),
           ec_technical = orElseList (technicalOf (skills data)) [],
           ec_language =
             orElseList (case skills data of None \<Rightarrow> None | Some s \<Rightarrow> languages s) [],
           ec_projects =
             orElseList (map_option (map (enrichProject (skills data))) (projects data)) [],
           ec_achievements =
             orElseList (map_option (map enrichAchievement) (achievements data)) [],
           ec_certifications = [],
           ec_improvements =
             generateImprovements (personalInfo data) (skills data) (experience data)
               (isFresher data) role,
           ec_courseSummary = generateCourseSummary (education data) role \<rparr>)"

text \<open>The list \<^verbatim>\<open>enhancements\<close> of what was filled in.\<close>

definition enhancements :: "resume_data \<Rightarrow> string list" where
  "enhancements data =
     (if \<not> populated (summaryOf (personalInfo data))
      then [''Generated professional summary''] else [])
     @ (if isFresher data \<and> \<not> populated (objectiveOf (personalInfo data))
        then [''Created career objective''] else [])
     @ (if 0 < lengthOrZero (projects data) then [''Enhanced project descriptions''] else [])
     @ (if 0 < lengthOrZero (achievements data)
        then [''Improved achievement descriptions''] else [])
     @ (if 0 < lengthOrZero (education data) then [''Added education details''] else [])"

subsection \<open>Results as JavaScript objects\<close>

text \<open>
  The typed records written as the objects the service returns. A field that is \<open>None\<close> in
  an item is a property the item does not have; \<^verbatim>\<open>objective: undefined\<close> written in an
  object literal is a property whose value is \<^verbatim>\<open>undefined\<close>. Properties that the service only
  copies from the request are not listed, and the order of the properties of an item is not
  modelled.
\<close>

definition strings :: "string list \<Rightarrow> jsval" where
  "strings xs = JArr (map JStr xs)"

definition optional :: "string \<Rightarrow> 'a option \<Rightarrow> ('a \<Rightarrow> jsval) \<Rightarrow> (string \<times> jsval) list" where
  "optional key x f = (case x of None \<Rightarrow> [] | Some v \<Rightarrow> [(key, f v)])"

definition orUndefined :: "string option \<Rightarrow> jsval" where
  "orUndefined x = (case x of None \<Rightarrow> JUndefined | Some s \<Rightarrow> JStr s)"

definition projectObject :: "project \<Rightarrow> jsval" where
  "projectObject p =
     JObj ([(''name'', JStr (proj_name p))]
           @ optional ''description'' (proj_description p) JStr
           @ optional ''technologies'' (proj_technologies p) strings
           @ optional ''outcomes'' (proj_outcomes p) strings)"

definition achievementObject :: "achievement \<Rightarrow> jsval" where
  "achievementObject a =
     JObj ([(''title'', JStr (ach_title a))]
           @ optional ''description'' (ach_description a) JStr
           @ optional ''date'' (ach_date a) JStr)"

definition educationObject :: "education_entry \<Rightarrow> jsval" where
  "educationObject e =
     JObj (optional ''institution'' (edu_institution e) JStr
           @ optional ''degree'' (edu_degree e) JStr
           @ optional ''field'' (edu_field e) JStr
           @ optional ''gpa'' (edu_gpa e) JStr
           @ optional ''description'' (edu_description e) JStr
           @ optional ''achievements'' (edu_achievements e) strings)"

definition descriptionValue :: "description \<Rightarrow> jsval" where
  "descriptionValue d = (case d of DescriptionText s \<Rightarrow> JStr s | DescriptionList xs \<Rightarrow> strings xs)"

definition experienceObject :: "experience_entry \<Rightarrow> jsval" where
  "experienceObject e =
     JObj (optional ''company'' (exp_company e) JStr
           @ [(''position'', JStr (exp_position e))]
           @ optional ''description'' (exp_description e) descriptionValue
           @ optional ''achievements'' (exp_achievements e) strings)"

definition contentObject :: "enhanced_content \<Rightarrow> jsval" where
  "contentObject c =
     JObj [(''personalInfo'',
              JObj [(''summary'', JStr (ec_summary c)),
                    (''objective'', orUndefined (ec_objective c))]),
           (''education'', JArr (map educationObject (ec_education c))),
           (''experience'', JArr (map experienceObject (ec_experience c))),
           (''skills'',
              JObj [(''technical'', strings (ec_technical c)),
                    (''language'', strings (ec_language c))]),
           (''projects'', JArr (map projectObject (ec_projects c))),
           (''achievements'', JArr (map achievementObject (ec_achievements c))),
           (''certifications'', JArr (ec_certifications c)),
           (''improvements'', strings (ec_improvements c)),
           (''courseSummary'', JStr (ec_courseSummary c))]"

text \<open>\<^verbatim>\<open>enhanceContentLocally\<close>: the local result of resume-content generation.\<close>

definition enhanceContentLocally :: "platform \<Rightarrow> resume_data \<Rightarrow> jsval" where
  "enhanceContentLocally P data =
     JObj [(''success'', JBool True),
           (''generatedContent'', contentObject (enhancedContent P data)),
           (''aiPrompt'',
              JStr (''Enhanced resume for '' @ effectiveRole data
                    @ '' role (local enhancement) - '' @ join '', '' (enhancements data))),
           (''enhancements'', strings (enhancements data)),
           (''enhancementMethod'', JStr ''local'')]"

subsection \<open>Enrichment of several sections\<close>

text \<open>
  The argument \<^verbatim>\<open>sections\<close> of \<^verbatim>\<open>enhanceSectionsLocally\<close> holds the projects, achievements,
  education and skills of a resume, so it is a \<open>resume_data\<close>; \<open>roleApplyingFor\<close> is the
  field of that name of the context. A section is enriched when it is there.
\<close>

record enhanced_sections =
  es_projects :: "project list option"
  es_achievements :: "achievement list option"
  es_courseSummary :: "string option"

definition enhancedSections :: "resume_data \<Rightarrow> string option \<Rightarrow> enhanced_sections" where
  "enhancedSections sections role =
     \<lparr> es_projects = map_option (map (enrichProject (skills sections))) (projects sections),
       es_achievements = map_option (map enrichAchievement) (achievements sections),
       es_courseSummary =
         (case education sections of
            None \<Rightarrow> None
          | Some edus \<Rightarrow> Some (generateCourseSummary (Some edus) role)) \<rparr>"

definition sectionsObject :: "enhanced_sections \<Rightarrow> jsval" where
  "sectionsObject e =
     JObj (optional ''projects'' (es_projects e) (\<lambda>ps. JArr (map projectObject ps))
           @ optional ''achievements'' (es_achievements e) (\<lambda>as. JArr (map achievementObject as))
           @ optional ''courseSummary'' (es_courseSummary e) JStr)"

definition enhanceSectionsLocally :: "resume_data \<Rightarrow> string option \<Rightarrow> jsval" where
  "enhanceSectionsLocally sections role =
     JObj [(''success'', JBool True),
           (''enhancedSections'', sectionsObject (enhancedSections sections role))]"

subsection \<open>Profile summary\<close>

text \<open>
  \<^verbatim>\<open>generateProfileSummaryLocally\<close> calls \<^verbatim>\<open>generateSummary\<close> with a personal info whose
  summary is \<^verbatim>\<open>null\<close>, and \<^verbatim>\<open>generateObjective\<close> for a fresher.
\<close>

definition blankInfo :: personal_info where
  "blankInfo = \<lparr> info_summary = None, info_objective = None, info_email = None,
                 info_phone = None \<rparr>"

definition generateProfileSummaryLocally :: "platform \<Rightarrow> resume_data \<Rightarrow> jsval" where
  "generateProfileSummaryLocally P data =
     JObj [(''success'', JBool True),
           (''summary'',
              JStr (generateSummary P (Some blankInfo) (skills data) (experience data)
                      (isFresher data) (roleApplyingFor data))),
           (''objective'',
              (if isFresher data
               then JStr (generateObjective (Some blankInfo) (education data) (skills data)
                            (roleApplyingFor data))
               else JUndefined))]"

section \<open>ATS scoring\<close>

text \<open>
  What one call of the service reads from outside: the calendar day, the clock when the
  breaker is consulted and the clock read later in the call, the replies of the remote model
  to the successive calls of \<^verbatim>\<open>model.generateContent\<close> (counted from 0), the random draws and
  the time stamp. \<open>randomFloor n\<close> is the value of \<^verbatim>\<open>Math.floor(Math.random() * n)\<close>; the
  greatest double below 1 times 15 or 11 rounds to a double below 15 or 11, so the draw is
  below \<open>n\<close> for the two values of \<open>n\<close> the service uses.
\<close>

datatype reply = Answer string | Failure string "nat option"

record call_env =
  calendarDay :: string
  clockAtEntry :: int
  clockLater :: int
  remote :: "nat \<Rightarrow> reply"
  randomFloor :: "nat \<Rightarrow> nat"
  isoTime :: string

subsection \<open>Local score\<close>

text \<open>
  \<^verbatim>\<open>calculateResumeCompleteness\<close> adds the weights of the sections that are there, in the
  order of the source, with the addition of doubles, and divides by the sum of the six
  section weights.
\<close>

definition weightIf :: "bool \<Rightarrow> real \<Rightarrow> real list" where
  "weightIf present w = (if present then [w] else [])"

definition calculateResumeCompleteness :: "platform \<Rightarrow> resume_data \<Rightarrow> real" where
  "calculateResumeCompleteness P resumeData =
     (let added =
            (case personalInfo resumeData of
               None \<Rightarrow> []
             | Some info \<Rightarrow>
                 weightIf (populated (info_summary info)) 0.1
                 @ weightIf (populated (info_email info)) 0.05
                 @ weightIf (populated (info_phone info)) 0.05)
            @ weightIf (0 < lengthOrZero (education resumeData)) 0.2
            @ weightIf (0 < lengthOrZero (experience resumeData)) 0.2
            @ weightIf (0 < lengthOrZero (technicalOf (skills resumeData))) 0.15
            @ weightIf (0 < lengthOrZero (projects resumeData)) 0.15
            @ weightIf (0 < lengthOrZero (achievements resumeData)) 0.1;
          completeness = foldl (fadd P) 0 added;
          totalChecks = foldl (fadd P) 0 [0.2, 0.2, 0.2, 0.15, 0.15, 0.1]
      in fdiv P completeness totalChecks)"

text \<open>\<^verbatim>\<open>calculateResumeLength\<close>: the characters of the text fields.\<close>

definition textLength :: "string option \<Rightarrow> nat" where
  "textLength x = (case x of None \<Rightarrow> 0 | Some s \<Rightarrow> length s)"

definition joinedLength :: "string list option \<Rightarrow> nat" where
  "joinedLength x = (case x of None \<Rightarrow> 0 | Some xs \<Rightarrow> length (join '' '' xs))"

definition descriptionLength :: "description option \<Rightarrow> nat" where
  "descriptionLength x =
     (case x of
        None \<Rightarrow> 0
      | Some (DescriptionList xs) \<Rightarrow> length (join '' '' xs)
      | Some (DescriptionText s) \<Rightarrow> length s)"

definition calculateResumeLength :: "resume_data \<Rightarrow> nat" where
  "calculateResumeLength resumeData =
     textLength (summaryOf (personalInfo resumeData))
     + textLength (objectiveOf (personalInfo resumeData))
     + sum_list (map (\<lambda>edu. textLength (edu_description edu) + joinedLength (edu_achievements edu))
         (orElseList (education resumeData) []))
     + sum_list (map (\<lambda>entry. descriptionLength (exp_description entry)
                              + joinedLength (exp_achievements entry))
         (orElseList (experience resumeData) []))
     + sum_list (map (\<lambda>proj. textLength (proj_description proj) + joinedLength (proj_outcomes proj))
         (orElseList (projects resumeData) []))
     + sum_list (map (\<lambda>ach. textLength (ach_description ach))
         (orElseList (achievements resumeData) []))"

text \<open>
  The variable \<^verbatim>\<open>score\<close> of \<^verbatim>\<open>computeATSScoreLocally\<close> before it is rounded. The quotient,
  the sum and the minimum are exact here: the quotient of the length by 1000 and its sum with
  the base differ from the doubles the code computes by less than the distance of the sum
  from the nearest half, unless they are exactly representable, so the rounded score is the
  same.
\<close>

definition lengthBonus :: "nat \<Rightarrow> real" where
  "lengthBonus resumeLength = min (real resumeLength / 1000) 5"

definition localScore :: "platform \<Rightarrow> call_env \<Rightarrow> resume_data \<Rightarrow> real" where
  "localScore P E resumeData =
     (if calculateResumeCompleteness P resumeData < 0.4
      then real (randomFloor E 15) + 35
      else
        (let resumeLength = calculateResumeLength resumeData;
             baseScore = real (randomFloor E 11) + 70
         in min (baseScore + lengthBonus resumeLength) 80))"

definition localSummary :: "platform \<Rightarrow> call_env \<Rightarrow> resume_data \<Rightarrow> string option \<Rightarrow> string" where
  "localSummary P E resumeData targetRole =
     (let score = localScore P E resumeData
      in if calculateResumeCompleteness P resumeData < 0.4
         then ''ATS Score: '' @ numberToString P score
              @ ''/100 - Resume appears incomplete. Please add more sections like ''
              @ ''projects, achievements, or certifications to improve your score.''
         else ''ATS Score: '' @ numberToString P score @ ''/100 - ''
              @ (if 75 \<le> score then ''Strong match!'' else ''Good match!'')
              @ '' Your resume shows good potential for '' @ orElse targetRole ''this role''
              @ ''.'')"

subsection \<open>Keywords and suggestions\<close>

text \<open>
  \<^verbatim>\<open>s.split(/\s+/)\<close>: the pieces between the runs of white space, an empty piece before a
  leading run and after a trailing one.
\<close>

function splitSpaces :: "string \<Rightarrow> string \<Rightarrow> string list" where
  "splitSpaces piece [] = [rev piece]"
| "splitSpaces piece (c # cs) =
     (if isSpace c then rev piece # splitSpaces [] (dropWhile isSpace cs)
      else splitSpaces (c # piece) cs)"
  by pat_completeness auto
termination
proof (relation "measure (\<lambda>(piece, s). length s)")
  show "wf (measure (\<lambda>(piece, s). length s))" by simp
next
  fix piece :: string and c :: char and cs :: string
  have "length (dropWhile isSpace cs) \<le> length cs" by (rule length_dropWhile_le)
  then show "(([], dropWhile isSpace cs), piece, c # cs) \<in> measure (\<lambda>(piece, s). length s)"
    by simp
qed simp

text \<open>The elements of a \<^verbatim>\<open>Set\<close> in the order they were first added.\<close>

definition distinctInOrder :: "'a list \<Rightarrow> 'a list" where
  "distinctInOrder xs = rev (remdups (rev xs))"

definition extractKeywords :: "resume_data \<Rightarrow> string list" where
  "extractKeywords resumeData =
     distinctInOrder
       ((case summaryOf (personalInfo resumeData) of
           None \<Rightarrow> []
         | Some s \<Rightarrow>
             if s \<noteq> [] then filter (\<lambda>word. 3 < length word) (splitSpaces [] (toLowerCase s))
             else [])
        @ (case technicalOf (skills resumeData) of
             None \<Rightarrow> []
           | Some ts \<Rightarrow> map toLowerCase ts))"

definition roleKeywords :: "(string \<times> string list) list" where
  "roleKeywords =
     [(''Software Engineer'',
        [''javascript'', ''react'', ''node'', ''git'', ''api'', ''database'', ''html'', ''css'']),
      (''Frontend Developer'',
        [''javascript'', ''react'', ''html'', ''css'', ''redux'', ''webpack'', ''responsive'']),
      (''Backend Developer'',
        [''node'', ''express'', ''mongodb'', ''sql'', ''api'', ''rest'', ''graphql'']),
      (''Full Stack Developer'',
        [''javascript'', ''react'', ''node'', ''express'', ''mongodb'', ''sql'', ''git''])]"

definition getMissingKeywords :: "string option \<Rightarrow> string list \<Rightarrow> string list" where
  "getMissingKeywords role keywords =
     (let expectedKeywords =
            lookupOr roleKeywords (interpolate role)
              (lookupOr roleKeywords ''Software Engineer'' []);
          keywordSet = set (map toLowerCase keywords)
      in filter (\<lambda>keyword. toLowerCase keyword \<notin> keywordSet) expectedKeywords)"

definition generateLocalSuggestions :: "resume_data \<Rightarrow> real \<Rightarrow> string option \<Rightarrow> string list" where
  "generateLocalSuggestions resumeData score targetRole =
     take 3
       ((if score < 75
         then [''Add more '' @ orElse targetRole ''role''
               @ ''-specific keywords to improve ATS matching''] else [])
        @ (if \<not> populated (summaryOf (personalInfo resumeData))
           then [''Add a professional summary to highlight your strengths''] else [])
        @ (case technicalOf (skills resumeData) of
             None \<Rightarrow> []
           | Some ts \<Rightarrow>
               if length ts < 5
               then [''Include more technical skills relevant to your target role''] else [])
        @ (if 0 < lengthOrZero (experience resumeData)
           then [''Quantify your achievements with specific metrics and numbers''] else [])
        @ (if 0 < lengthOrZero (projects resumeData)
           then [''Enhance project descriptions with outcomes and technologies used'']
           else []))"

text \<open>\<^verbatim>\<open>computeATSScoreLocally\<close>; the score of the result is \<^verbatim>\<open>Math.round(score)\<close>.\<close>

definition computeATSScoreLocally ::
  "platform \<Rightarrow> call_env \<Rightarrow> resume_data \<Rightarrow> string option \<Rightarrow> jsval" where
  "computeATSScoreLocally P E resumeData targetRole =
     (let score = localScore P E resumeData;
          summary = localSummary P E resumeData targetRole;
          keywords = extractKeywords resumeData;
          missingKeywords = getMissingKeywords targetRole keywords
      in JObj [(''score'', JNum (of_int (round score))),
               (''summary'', JStr summary),
               (''keywordsMatched'', strings (take 5 keywords)),
               (''keywordsMissing'', strings (take 5 missingKeywords)),
               (''suggestions'', strings (generateLocalSuggestions resumeData score targetRole)),
               (''lastComputedAt'', JStr (isoTime E)),
               (''computationMethod'', JStr ''local'')])"

subsection \<open>Normalisation of the remote answer\<close>

text \<open>
  Reading a property: of \<^verbatim>\<open>null\<close> and \<^verbatim>\<open>undefined\<close> it throws a \<^verbatim>\<open>TypeError\<close>, of an object
  it is the own property of that name or \<^verbatim>\<open>undefined\<close>, and of any other value it is
  \<^verbatim>\<open>undefined\<close> for the names used here, which no prototype defines.
\<close>

definition getProp :: "jsval \<Rightarrow> string \<Rightarrow> error + jsval" where
  "getProp v key =
     (case v of
        JNull \<Rightarrow> Inl (TypeError ''Cannot read properties of null'')
      | JUndefined \<Rightarrow> Inl (TypeError ''Cannot read properties of undefined'')
      | JObj props \<Rightarrow> Inr (case map_of props key of None \<Rightarrow> JUndefined | Some x \<Rightarrow> x)
      | _ \<Rightarrow> Inr JUndefined)"

definition truthy :: "jsval \<Rightarrow> bool" where
  "truthy v =
     (case v of
        JUndefined \<Rightarrow> False
      | JNull \<Rightarrow> False
      | JBool b \<Rightarrow> b
      | JNum x \<Rightarrow> x \<noteq> 0
      | JStr s \<Rightarrow> s \<noteq> []
      | JArr xs \<Rightarrow> True
      | JObj props \<Rightarrow> True)"

definition isArray :: "jsval \<Rightarrow> bool" where
  "isArray v = (case v of JArr xs \<Rightarrow> True | _ \<Rightarrow> False)"


text \<open>
  \<^verbatim>\<open>Math.max(0, Math.min(100, Math.round(x)))\<close> when the value is a number, else \<^verbatim>\<open>null\<close>.
\<close>

definition normalizedScore :: "jsval \<Rightarrow> jsval" where
  "normalizedScore v =
     (case v of
        JNum x \<Rightarrow> JNum (of_int (max 0 (min 100 (round x))))
      | _ \<Rightarrow> JNull)"

definition arrayOrEmpty :: "jsval \<Rightarrow> jsval" where
  "arrayOrEmpty v = (if isArray v then v else JArr [])"

text \<open>
  The object behind \<^verbatim>\<open>// Normalize fields\<close> in \<^verbatim>\<open>computeATSScoreWithAI\<close>, for the value
  \<open>parsed\<close> that \<^verbatim>\<open>JSON.parse\<close> returned.
\<close>

definition normalizeATS :: "jsval \<Rightarrow> error + jsval" where
  "normalizeATS parsed =
     (case getProp parsed ''score'' of
        Inl e \<Rightarrow> Inl e
      | Inr score \<Rightarrow>
          (case (getProp parsed ''summary'', getProp parsed ''keywordsMatched'',
                 getProp parsed ''keywordsMissing'', getProp parsed ''suggestions'') of
             (Inr summary, Inr matched, Inr missing, Inr suggestions) \<Rightarrow>
               Inr (JObj [(''score'', normalizedScore score),
                          (''summary'', if truthy summary then summary else JStr []),
                          (''keywordsMatched'', arrayOrEmpty matched),
                          (''keywordsMissing'', arrayOrEmpty missing),
                          (''suggestions'', arrayOrEmpty suggestions),
                          (''computationMethod'', JStr ''ai'')])
           | _ \<Rightarrow> Inl (TypeError ''Cannot read properties'')))"

section \<open>Orchestrator\<close>

text \<open>
  One operation runs at a time. The prompt sent to the remote model is not modelled: the
  reply to the \<open>k\<close>-th call of an operation is \<open>remote E k\<close>, a \<open>Failure\<close> standing for a
  rejected call or a timeout with its message and HTTP status. Every call of the remote
  model increments \<open>remoteCalls\<close>.
\<close>

definition getCacheKey :: "resume_data \<Rightarrow> cache_key" where
  "getCacheKey data =
     (orElse (roleApplyingFor data) ''general'',
      isFresher data,
      lengthOrZero (technicalOf (skills data)),
      lengthOrZero (experience data),
      lengthOrZero (projects data),
      orElse (case firstEntry (education data) of None \<Rightarrow> None | Some e \<Rightarrow> edu_field e) [])"

text \<open>
  The retry loop shared by \<^verbatim>\<open>generateResumeContentWithAI\<close> and \<^verbatim>\<open>computeATSScoreWithAI\<close>: call
  the model, turn the reply into a result with \<open>handle\<close>, and on an error rethrow it at the
  last permitted attempt or try again. A loop that ends without returning gives \<^verbatim>\<open>undefined\<close>.
\<close>

function retryLoop ::
  "(reply \<Rightarrow> error + jsval) \<Rightarrow> call_env \<Rightarrow> nat \<Rightarrow> nat \<Rightarrow> service \<Rightarrow> (error + jsval) \<times> service" where
  "retryLoop handle E maxRetries retryCount s =
     (if retryCount < maxRetries
      then (let s1 = s\<lparr>remoteCalls := remoteCalls s + 1\<rparr>
            in case handle (remote E retryCount) of
                 Inr result \<Rightarrow> (Inr result, s1)
               | Inl err \<Rightarrow>
                   if retryCount = maxRetries - 1 then (Inl err, s1)
                   else retryLoop handle E maxRetries (retryCount + 1) s1)
      else (Inr JUndefined, s))"
  by pat_completeness auto
termination
  by (relation "measure (\<lambda>(handle, E, maxRetries, retryCount, s). maxRetries - retryCount)") auto

declare retryLoop.simps [simp del]

subsection \<open>Resume content\<close>

text \<open>One attempt of \<^verbatim>\<open>generateResumeContentWithAI\<close>: trim, repair, parse, wrap.\<close>

definition resumeFromReply :: "platform \<Rightarrow> resume_data \<Rightarrow> reply \<Rightarrow> error + jsval" where
  "resumeFromReply P data r =
     (case r of
        Failure message status \<Rightarrow> Inl (Error message)
      | Answer text \<Rightarrow>
          (case JSON_parse P (scrubJsonText (trim text)) of
             None \<Rightarrow> Inl (Error ''Invalid JSON from AI'')
           | Some generatedContent \<Rightarrow>
               Inr (JObj [(''success'', JBool True),
                          (''generatedContent'', generatedContent),
                          (''aiPrompt'',
                             JStr (''Generated resume for '' @ effectiveRole data @ '' role'')),
                          (''generationMethod'', JStr ''ai'')])))"

text \<open>
  \<^verbatim>\<open>generateResumeContentWithAI\<close> reads \<^verbatim>\<open>personalInfo.summary\<close> before anything else, which
  throws when the request has no personal info; then it makes at most two attempts.
\<close>

definition generateResumeContentWithAI ::
  "platform \<Rightarrow> call_env \<Rightarrow> resume_data \<Rightarrow> service \<Rightarrow> (error + jsval) \<times> service" where
  "generateResumeContentWithAI P E data s =
     (if personalInfo data = None
      then (Inl (TypeError ''Cannot read properties of undefined''), s)
      else retryLoop (resumeFromReply P data) E 2 0 s)"

definition cacheResult :: "cache_key \<Rightarrow> jsval \<Rightarrow> service \<Rightarrow> service" where
  "cacheResult key result s = s\<lparr>cache := (cache s)(key \<mapsto> result)\<rparr>"

definition generateResumeContent ::
  "platform \<Rightarrow> call_env \<Rightarrow> resume_data \<Rightarrow> service \<Rightarrow> (error + jsval) \<times> service" where
  "generateResumeContent P E data s =
     (let cacheKey = getCacheKey data
      in case cache s cacheKey of
           Some cached \<Rightarrow> (Inr cached, s)
         | None \<Rightarrow>
             (case isAvailable (calendarDay E) s of
                (available, s1) \<Rightarrow>
                  if available \<and> circuitState s1 \<noteq> OPEN
                  then (case withCircuitBreaker (clockAtEntry E) (clockLater E)
                               (\<lambda>s'. generateResumeContentWithAI P E data
                                       (withRateLimit (clockLater E) s')) s1 of
                          (Inr result, s2) \<Rightarrow> (Inr result, cacheResult cacheKey result s2)
                        | (Inl err, s2) \<Rightarrow>
                            (Inr (enhanceContentLocally P data),
                             cacheResult cacheKey (enhanceContentLocally P data) s2))
                  else (Inr (enhanceContentLocally P data),
                        cacheResult cacheKey (enhanceContentLocally P data) s1)))"

subsection \<open>ATS score\<close>

definition atsFromReply :: "platform \<Rightarrow> reply \<Rightarrow> error + jsval" where
  "atsFromReply P r =
     (case r of
        Failure message status \<Rightarrow> Inl (Error message)
      | Answer text \<Rightarrow>
          (case JSON_parse P (scrubJsonText (trim text)) of
             None \<Rightarrow> Inl (Error ''Invalid JSON from AI'')
           | Some parsed \<Rightarrow> normalizeATS parsed))"

definition computeATSScoreWithAI ::
  "platform \<Rightarrow> call_env \<Rightarrow> service \<Rightarrow> (error + jsval) \<times> service" where
  "computeATSScoreWithAI P E s = retryLoop (atsFromReply P) E 2 0 s"

definition computeATSScore ::
  "platform \<Rightarrow> call_env \<Rightarrow> resume_data \<Rightarrow> string option \<Rightarrow> service \<Rightarrow>
   (error + jsval) \<times> service" where
  "computeATSScore P E resumeData targetRole s =
     (case isAvailable (calendarDay E) s of
        (available, s1) \<Rightarrow>
          if available \<and> circuitState s1 \<noteq> OPEN
          then (case withCircuitBreaker (clockAtEntry E) (clockLater E)
                       (computeATSScoreWithAI P E) s1 of
                  (Inr result, s2) \<Rightarrow> (Inr result, s2)
                | (Inl err, s2) \<Rightarrow> (Inr (computeATSScoreLocally P E resumeData targetRole), s2))
          else (Inr (computeATSScoreLocally P E resumeData targetRole), s1))"

subsection \<open>Profile summary\<close>

text \<open>
  The wrapped call of \<^verbatim>\<open>generateProfileSummary\<close> catches the failure of the remote call
  itself and answers with the local summary, so the breaker sees a success.
\<close>

definition profileSummaryCall ::
  "platform \<Rightarrow> call_env \<Rightarrow> resume_data \<Rightarrow> service \<Rightarrow> (error + jsval) \<times> service" where
  "profileSummaryCall P E data s =
     (let s1 = s\<lparr>remoteCalls := remoteCalls s + 1\<rparr>
      in case remote E 0 of
           Answer text \<Rightarrow>
             (Inr (JObj [(''success'', JBool True),
                         (''summary'', JStr (trim text)),
                         (''objective'',
                            if isFresher data then JStr (trim text) else JUndefined)]), s1)
         | Failure message status \<Rightarrow> (Inr (generateProfileSummaryLocally P data), s1))"

definition generateProfileSummary ::
  "platform \<Rightarrow> call_env \<Rightarrow> resume_data \<Rightarrow> service \<Rightarrow> (error + jsval) \<times> service" where
  "generateProfileSummary P E data s =
     (case isAvailable (calendarDay E) s of
        (available, s1) \<Rightarrow>
          if \<not> available then (Inr (generateProfileSummaryLocally P data), s1)
          else withCircuitBreaker (clockAtEntry E) (clockLater E)
                 (profileSummaryCall P E data) s1)"

subsection \<open>Several sections\<close>

text \<open>The wrapped call of \<^verbatim>\<open>enhanceMultipleSections\<close> computes what the local path computes.\<close>

definition enhanceMultipleSections ::
  "call_env \<Rightarrow> resume_data \<Rightarrow> string option \<Rightarrow> service \<Rightarrow> (error + jsval) \<times> service" where
  "enhanceMultipleSections E sections role s =
     (case isAvailable (calendarDay E) s of
        (available, s1) \<Rightarrow>
          if \<not> available then (Inr (enhanceSectionsLocally sections role), s1)
          else withCircuitBreaker (clockAtEntry E) (clockLater E)
                 (\<lambda>s'. (Inr (enhanceSectionsLocally sections role), s')) s1)"

subsection \<open>One section\<close>

text \<open>
  The retry loop of \<^verbatim>\<open>enhanceSection\<close>: an error with status 503 is retried while attempts
  remain, any other error is thrown. Leaving the loop without a result makes the next
  statement read a property of \<^verbatim>\<open>undefined\<close>.
\<close>

function enhanceRetry ::
  "call_env \<Rightarrow> nat \<Rightarrow> nat \<Rightarrow> service \<Rightarrow> (error + string) \<times> service" where
  "enhanceRetry E maxRetries retryCount s =
     (if retryCount < maxRetries
      then (let s1 = s\<lparr>remoteCalls := remoteCalls s + 1\<rparr>
            in case remote E retryCount of
                 Answer text \<Rightarrow> (Inr text, s1)
               | Failure message status \<Rightarrow>
                   if status = Some 503 \<and> retryCount < maxRetries - 1
                   then enhanceRetry E maxRetries (retryCount + 1) s1
                   else (Inl (Error message), s1))
      else (Inl (TypeError ''Cannot read properties of undefined''), s))"
  by pat_completeness auto
termination
  by (relation "measure (\<lambda>(E, maxRetries, retryCount, s). maxRetries - retryCount)") auto

declare enhanceRetry.simps [simp del]

text \<open>\<^verbatim>\<open>s.split('\n')\<close> and the formatting of the answer as bullet points.\<close>

fun splitLines :: "string \<Rightarrow> string \<Rightarrow> string list" where
  "splitLines piece [] = [rev piece]"
| "splitLines piece (c # cs) =
     (if c = newline then rev piece # splitLines [] cs else splitLines (c # piece) cs)"

definition formatBullets :: "string \<Rightarrow> string \<Rightarrow> string" where
  "formatBullets sign enhanced =
     join [newline]
       (map (\<lambda>line. if prefix sign line then line else sign @ '' '' @ line)
          (filter (\<lambda>line. line \<noteq> []) (map trim (splitLines [] enhanced))))"

definition enhanceSection ::
  "platform \<Rightarrow> call_env \<Rightarrow> string \<Rightarrow> service \<Rightarrow> (error + jsval) \<times> service" where
  "enhanceSection P E section s =
     (case isAvailable (calendarDay E) s of
        (available, s1) \<Rightarrow>
          if \<not> available
          then (Inr (JObj [(''success'', JBool False),
                           (''error'', JStr ''AI service is not available'')]), s1)
          else (case enhanceRetry E 3 0 s1 of
                  (Inr text, s2) \<Rightarrow>
                    (Inr (JObj [(''success'', JBool True),
                                (''enhancedContent'',
                                   JStr (formatBullets (bulletSign P) (trim text)))]), s2)
                | (Inl err, s2) \<Rightarrow>
                    (Inr (JObj [(''success'', JBool False),
                                (''error'',
                                   JStr (''Failed to enhance '' @ section
                                         @ '' section. Please try again later.''))]), s2)))"

subsection \<open>Reading results and requests\<close>

text \<open>The names of the properties of a result, and the names that are provenance tags.\<close>

definition fieldNames :: "jsval \<Rightarrow> string set" where
  "fieldNames v = (case v of JObj props \<Rightarrow> set (map fst props) | _ \<Rightarrow> {})"

definition provenanceTags :: "string set" where
  "provenanceTags = {''generationMethod'', ''enhancementMethod'', ''computationMethod''}"

text \<open>
  A field of a request item is kept when the caller populated it and filled with the
  generated value otherwise; a list is populated as soon as it is there.
\<close>

definition keptOrFilled :: "string option \<Rightarrow> string option \<Rightarrow> string \<Rightarrow> bool" where
  "keptOrFilled before after generated =
     ((populated before \<longrightarrow> after = before)
      \<and> (\<not> populated before \<longrightarrow> after = Some generated))"

definition keptOrFilledList ::
  "string list option \<Rightarrow> string list option \<Rightarrow> string list \<Rightarrow> bool" where
  "keptOrFilledList before after generated =
     ((before \<noteq> None \<longrightarrow> after = before) \<and> (before = None \<longrightarrow> after = Some generated))"

definition projectEnriched :: "skill_set option \<Rightarrow> project \<Rightarrow> project \<Rightarrow> bool" where
  "projectEnriched sk p q =
     (proj_name q = proj_name p \<and> proj_technologies q = proj_technologies p
      \<and> keptOrFilled (proj_description p) (proj_description q) (enhanceProjectDescription p sk)
      \<and> keptOrFilledList (proj_outcomes p) (proj_outcomes q) (generateProjectOutcomes p))"

definition achievementEnriched :: "achievement \<Rightarrow> achievement \<Rightarrow> bool" where
  "achievementEnriched a b =
     (ach_title b = ach_title a \<and> ach_date b = ach_date a
      \<and> keptOrFilled (ach_description a) (ach_description b) (enhanceAchievementDescription a))"

definition educationEnriched ::
  "platform \<Rightarrow> education_entry list option \<Rightarrow> string option \<Rightarrow> education_entry \<Rightarrow>
   education_entry \<Rightarrow> bool" where
  "educationEnriched P edus role e f =
     (edu_institution f = edu_institution e \<and> edu_degree f = edu_degree e
      \<and> edu_field f = edu_field e \<and> edu_gpa f = edu_gpa e
      \<and> keptOrFilled (edu_description e) (edu_description f) (generateCourseSummary edus role)
      \<and> keptOrFilledList (edu_achievements e) (edu_achievements f)
           (generateEducationAchievements P e))"




subsection \<open>Sample values\<close>

text \<open>
  An instance of the platform for the examples: a parser that knows two texts, exact
  arithmetic in place of the arithmetic of doubles, and an asterisk for the bullet sign.
\<close>

definition scoreText :: string where
  "scoreText = ''{'' @ [quote] @ ''score'' @ [quote] @ '': 82.4}''"

definition samplePlatform :: platform where
  "samplePlatform =
     \<lparr> numberToString = (\<lambda>x. ''70''),
       parseFloat = (\<lambda>s. None),
       JSON_parse = (\<lambda>t. if t = ''{}'' then Some (JObj [])
                         else if t = scoreText then Some (JObj [(''score'', JNum 82.4)])
                         else None),
       fadd = (\<lambda>x y. x + y),
       fdiv = (\<lambda>x y. x / y),
       bulletSign = ''*'' \<rparr>"

definition sampleEnv :: call_env where
  "sampleEnv =
     \<lparr> calendarDay = ''Mon Nov 02 2026'', clockAtEntry = 1000, clockLater = 2500,
       remote = (\<lambda>k. Answer ''{}''), randomFloor = (\<lambda>n. 7),
       isoTime = ''2026-11-02T10:00:00.000Z'' \<rparr>"


definition scoringEnv :: call_env where
  "scoringEnv = sampleEnv\<lparr>remote := (\<lambda>k. Answer scoreText)\<rparr>"

text \<open>A resume with nothing but an empty personal info, and one with every section.\<close>

definition bareResume :: resume_data where
  "bareResume =
     \<lparr> personalInfo = Some blankInfo, skills = None, education = None, experience = None,
       projects = None, achievements = None, roleApplyingFor = None, isFresher = False \<rparr>"

definition sampleProject :: project where
  "sampleProject =
     \<lparr> proj_name = ''Shop portal'', proj_description = Some ''My own words'',
       proj_technologies = Some [''React'', ''Node''], proj_outcomes = None \<rparr>"

definition sampleAchievement :: achievement where
  "sampleAchievement =
     \<lparr> ach_title = ''Hackathon winner'', ach_description = None, ach_date = Some ''2024'' \<rparr>"

definition sampleEducation :: education_entry where
  "sampleEducation =
     \<lparr> edu_institution = Some ''State University'', edu_degree = Some ''BSc'',
       edu_field = Some ''Computer Science'', edu_gpa = Some ''3.8'',
       edu_description = Some ''Thesis on compilers'', edu_achievements = None \<rparr>"

definition sampleExperience :: experience_entry where
  "sampleExperience =
     \<lparr> exp_company = Some ''Acme'', exp_position = ''Frontend Developer'',
       exp_description = Some (DescriptionList [''Built the shop'', ''Led two people'']),
       exp_achievements = None \<rparr>"

definition fullResume :: resume_data where
  "fullResume =
     \<lparr> personalInfo =
         Some \<lparr> info_summary = Some ''Frontend developer with five years of practice'',
                info_objective = None, info_email = Some ''a@b.c'',
                info_phone = Some ''555'' \<rparr>,
       skills = Some \<lparr> technical = Some [''React'', ''CSS''], languages = None \<rparr>,
       education = Some [sampleEducation],
       experience = Some [sampleExperience],
       projects = Some [sampleProject],
       achievements = Some [sampleAchievement],
       roleApplyingFor = Some ''Frontend Developer'',
       isFresher = False \<rparr>"

section \<open>Properties of the governor\<close>

lemma reserveAll_count:
  "dailyCallCount (reserveAll ts s) = dailyCallCount s + length ts"
  unfolding reserveAll_def
  by (induction ts arbitrary: s) (simp_all add: withRateLimit_def)

lemma reserveAll_frame:
  "dailyCallLimit (reserveAll ts s) = dailyCallLimit s \<and>
   lastResetDate (reserveAll ts s) = lastResetDate s"
  unfolding reserveAll_def
  by (induction ts arbitrary: s) (simp_all add: withRateLimit_def)

text \<open>
  C7. With a ceiling of 15, after fifteen reservations made on the stored day the check on
  that day reports the limit reached and leaves the counter alone, while fewer reservations
  from a fresh counter do not reach it. The first check on another day resets the counter
  to 0 together with the stored date and reports the limit not reached; the reservation that
  follows leaves the counter at 1.
\<close>

theorem governor_daily_ceiling:
  assumes "dailyCallLimit s = 15" and "lastResetDate s = day" and "length ts = 15"
  shows "fst (isDailyLimitReached day (reserveAll ts s))
       \<and> snd (isDailyLimitReached day (reserveAll ts s)) = reserveAll ts s
       \<and> (dailyCallCount s = 0 \<longrightarrow>
            (\<forall>us. length us < 15 \<longrightarrow> \<not> fst (isDailyLimitReached day (reserveAll us s))))
       \<and> (day' \<noteq> day \<longrightarrow>
            \<not> fst (isDailyLimitReached day' (reserveAll ts s))
          \<and> dailyCallCount (snd (isDailyLimitReached day' (reserveAll ts s))) = 0
          \<and> lastResetDate (snd (isDailyLimitReached day' (reserveAll ts s))) = day'
          \<and> dailyCallCount (withRateLimit t (snd (isDailyLimitReached day' (reserveAll ts s)))) = 1
          \<and> \<not> fst (isDailyLimitReached day'
                 (withRateLimit t (snd (isDailyLimitReached day' (reserveAll ts s))))))"
  using assms reserveAll_count [of ts s] reserveAll_frame [of ts s]
  by (auto simp: isDailyLimitReached_def Let_def withRateLimit_def reserveAll_count
      reserveAll_frame)

theorem governor_daily_ceiling_witness:
  "fst (isDailyLimitReached ''Mon Nov 02 2026''
          (reserveAll [0, 1000, 2000, 3000, 4000, 5000, 6000, 7000, 8000, 9000, 10000, 11000,
             12000, 13000, 14000] (newService True ''Mon Nov 02 2026'')))
   \<and> \<not> fst (isDailyLimitReached ''Tue Nov 03 2026''
          (reserveAll [0, 1000, 2000, 3000, 4000, 5000, 6000, 7000, 8000, 9000, 10000, 11000,
             12000, 13000, 14000] (newService True ''Mon Nov 02 2026'')))"
  using governor_daily_ceiling [of "newService True ''Mon Nov 02 2026''" "''Mon Nov 02 2026''"
      "[0, 1000, 2000, 3000, 4000, 5000, 6000, 7000, 8000, 9000, 10000, 11000, 12000, 13000, 14000]"
      "''Tue Nov 03 2026''" 0]
  by (simp add: newService_def)

section \<open>Properties of the circuit breaker\<close>

lemma withCircuitBreaker_open_fast:
  "circuitState s = OPEN \<Longrightarrow> now \<le> nextTry s \<Longrightarrow>
   withCircuitBreaker now later fn s = (Inl (Error unavailableMessage), s)"
  by (simp add: withCircuitBreaker_def)

lemma withCircuitBreaker_fail:
  assumes "fst (fn s) = Inl e" and "circuitState s \<noteq> OPEN"
  shows "withCircuitBreaker now later fn s = (Inl e, recordFailure later (snd (fn s)))"
  using assms by (cases "fn s") (simp add: withCircuitBreaker_def)

lemma withCircuitBreaker_success:
  assumes "fst (fn s) = Inr r" and "circuitState s \<noteq> OPEN"
  shows "withCircuitBreaker now later fn s =
         (Inr r, if circuitState (snd (fn s)) = HALF_OPEN then resetCircuit (snd (fn s))
                 else snd (fn s))"
  using assms by (cases "fn s") (simp add: withCircuitBreaker_def)

lemma withCircuitBreaker_trial_success:
  assumes "fst (fn (s\<lparr>circuitState := HALF_OPEN\<rparr>)) = Inr r" and "circuitState s = OPEN"
    and "nextTry s < now"
  shows "withCircuitBreaker now later fn s =
         (Inr r, if circuitState (snd (fn (s\<lparr>circuitState := HALF_OPEN\<rparr>))) = HALF_OPEN
                 then resetCircuit (snd (fn (s\<lparr>circuitState := HALF_OPEN\<rparr>)))
                 else snd (fn (s\<lparr>circuitState := HALF_OPEN\<rparr>)))"
  using assms by (cases "fn (s\<lparr>circuitState := HALF_OPEN\<rparr>)") (simp add: withCircuitBreaker_def)

lemma recordFailure_fields:
  "failureCount (recordFailure t s) = failureCount s + 1"
  "failureThreshold (recordFailure t s) = failureThreshold s"
  "resetTimeout (recordFailure t s) = resetTimeout s"
  "circuitState (recordFailure t s) =
     (if failureThreshold s \<le> failureCount s + 1 then OPEN else circuitState s)"
  "nextTry (recordFailure t s) =
     (if failureThreshold s \<le> failureCount s + 1 then t + resetTimeout s else nextTry s)"
  by (simp_all add: recordFailure_def Let_def)

lemma withCircuitBreaker_fail_fields:
  fixes f :: "service \<Rightarrow> (error + 'c) \<times> service" and x :: service
  assumes k: "keepsBreaker f" and a: "alwaysFails f" and c: "circuitState x \<noteq> OPEN"
  shows "failureCount (snd (withCircuitBreaker t u f x)) = failureCount x + 1
    \<and> failureThreshold (snd (withCircuitBreaker t u f x)) = failureThreshold x
    \<and> resetTimeout (snd (withCircuitBreaker t u f x)) = resetTimeout x
    \<and> circuitState (snd (withCircuitBreaker t u f x)) =
        (if failureThreshold x \<le> failureCount x + 1 then OPEN else circuitState x)
    \<and> nextTry (snd (withCircuitBreaker t u f x)) =
        (if failureThreshold x \<le> failureCount x + 1 then u + resetTimeout x else nextTry x)"
proof -
  obtain e where "fst (f x) = Inl e" using a by (auto simp: alwaysFails_def)
  then have "snd (withCircuitBreaker t u f x) = recordFailure u (snd (f x))"
    using c by (simp add: withCircuitBreaker_fail)
  moreover have "circuitState (snd (f x)) = circuitState x"
    "failureCount (snd (f x)) = failureCount x" "nextTry (snd (f x)) = nextTry x"
    "failureThreshold (snd (f x)) = failureThreshold x"
    "resetTimeout (snd (f x)) = resetTimeout x"
    using k by (simp_all add: keepsBreaker_def)
  ultimately show ?thesis
    by (simp add: recordFailure_fields)
qed

text \<open>
  C4, as the code has it. A wrapped call that succeeds and leaves the breaker's fields alone:
  in the CLOSED state the failure count stays what it was (the reset is guarded by the
  HALF-OPEN test); in the HALF-OPEN state, or in the OPEN state once the clock has passed
  \<open>nextTry\<close>, the failure count becomes 0 and the state CLOSED.
\<close>

theorem breaker_success_reset:
  assumes "keepsBreaker fn" and "alwaysSucceeds fn"
  shows "(circuitState s = CLOSED \<longrightarrow>
            failureCount (snd (withCircuitBreaker now later fn s)) = failureCount s
          \<and> circuitState (snd (withCircuitBreaker now later fn s)) = CLOSED)
       \<and> (circuitState s = HALF_OPEN \<or> (circuitState s = OPEN \<and> nextTry s < now) \<longrightarrow>
            failureCount (snd (withCircuitBreaker now later fn s)) = 0
          \<and> circuitState (snd (withCircuitBreaker now later fn s)) = CLOSED)"
proof -
  have ok: "\<And>s'. \<exists>r. fst (fn s') = Inr r"
    using assms(2) by (simp add: alwaysSucceeds_def)
  have kb: "\<And>s'. circuitState (snd (fn s')) = circuitState s'
              \<and> failureCount (snd (fn s')) = failureCount s'"
    using assms(1) by (simp add: keepsBreaker_def)
  have closed: "circuitState s = CLOSED \<Longrightarrow>
      failureCount (snd (withCircuitBreaker now later fn s)) = failureCount s
    \<and> circuitState (snd (withCircuitBreaker now later fn s)) = CLOSED"
  proof -
    assume c: "circuitState s = CLOSED"
    obtain r where "fst (fn s) = Inr r" using ok by blast
    with c show ?thesis
      using withCircuitBreaker_success [of fn s r now later] kb [of s] by simp
  qed
  have half: "circuitState s = HALF_OPEN \<Longrightarrow>
      failureCount (snd (withCircuitBreaker now later fn s)) = 0
    \<and> circuitState (snd (withCircuitBreaker now later fn s)) = CLOSED"
  proof -
    assume c: "circuitState s = HALF_OPEN"
    obtain r where "fst (fn s) = Inr r" using ok by blast
    with c show ?thesis
      using withCircuitBreaker_success [of fn s r now later] kb [of s]
      by (simp add: resetCircuit_def)
  qed
  have trial: "circuitState s = OPEN \<Longrightarrow> nextTry s < now \<Longrightarrow>
      failureCount (snd (withCircuitBreaker now later fn s)) = 0
    \<and> circuitState (snd (withCircuitBreaker now later fn s)) = CLOSED"
  proof -
    assume c: "circuitState s = OPEN" and t: "nextTry s < now"
    obtain r where "fst (fn (s\<lparr>circuitState := HALF_OPEN\<rparr>)) = Inr r" using ok by blast
    with c t show ?thesis
      using withCircuitBreaker_trial_success [of fn s r now later]
        kb [of "s\<lparr>circuitState := HALF_OPEN\<rparr>"]
      by (simp add: resetCircuit_def)
  qed
  from closed half trial show ?thesis by blast
qed

lemma answeredCall_ok: "keepsBreaker answeredCall \<and> alwaysSucceeds answeredCall"
  by (simp add: keepsBreaker_def alwaysSucceeds_def answeredCall_def)

lemma overloadedCall_ok: "keepsBreaker overloadedCall \<and> alwaysFails overloadedCall"
  by (simp add: keepsBreaker_def alwaysFails_def overloadedCall_def)

theorem breaker_success_reset_witness:
  "failureCount (snd (withCircuitBreaker 5 6 answeredCall
       ((newService True ''Mon Nov 02 2026'')\<lparr>failureCount := 2\<rparr>))) = 2
   \<and> failureCount (snd (withCircuitBreaker 5 6 answeredCall
       ((newService True ''Mon Nov 02 2026'')\<lparr>failureCount := 3, circuitState := HALF_OPEN\<rparr>))) = 0"
  using breaker_success_reset [of answeredCall
      "(newService True ''Mon Nov 02 2026'')\<lparr>failureCount := 2\<rparr>" 5 6]
    breaker_success_reset [of answeredCall
      "(newService True ''Mon Nov 02 2026'')\<lparr>failureCount := 3, circuitState := HALF_OPEN\<rparr>" 5 6]
    answeredCall_ok
  by (simp add: newService_def)

text \<open>
  C4 as stated fails: a CLOSED breaker with two recorded failures serves a successful call
  and still counts two failures.
\<close>

theorem closed_success_no_reset_counterexample:
  "circuitState ((newService True ''Mon Nov 02 2026'')\<lparr>failureCount := 2\<rparr>) = CLOSED
   \<and> fst (withCircuitBreaker 5 6 answeredCall
        ((newService True ''Mon Nov 02 2026'')\<lparr>failureCount := 2\<rparr>)) = Inr (JStr ''ok'')
   \<and> failureCount (snd (withCircuitBreaker 5 6 answeredCall
        ((newService True ''Mon Nov 02 2026'')\<lparr>failureCount := 2\<rparr>))) \<noteq> 0"
  by (simp add: newService_def withCircuitBreaker_def answeredCall_def)

text \<open>
  C5. While the state is OPEN and the clock has not passed \<open>nextTry\<close>, an attempt returns
  the unavailable error and the service unchanged whatever the wrapped call is, so the call
  is not invoked. From a CLOSED breaker with no recorded failure and threshold 3, three
  failing calls in a row leave it CLOSED after the first two and OPEN after the third, with
  \<open>nextTry\<close> one cool-down after the third failure; an attempt made until then is
  short-circuited in the same way.
\<close>

theorem breaker_fails_fast:
  assumes "keepsBreaker f1" "alwaysFails f1" "keepsBreaker f2" "alwaysFails f2"
    "keepsBreaker f3" "alwaysFails f3"
  shows "(circuitState s = OPEN \<and> now \<le> nextTry s \<longrightarrow>
            withCircuitBreaker now later fn s = (Inl (Error unavailableMessage), s))
       \<and> (circuitState s = CLOSED \<and> failureCount s = 0 \<and> failureThreshold s = 3 \<longrightarrow>
            (let s1 = snd (withCircuitBreaker t1 u1 f1 s);
                 s2 = snd (withCircuitBreaker t2 u2 f2 s1);
                 s3 = snd (withCircuitBreaker t3 u3 f3 s2)
             in circuitState s1 = CLOSED \<and> circuitState s2 = CLOSED
              \<and> circuitState s3 = OPEN \<and> nextTry s3 = u3 + resetTimeout s
              \<and> (now \<le> u3 + resetTimeout s \<longrightarrow>
                   withCircuitBreaker now later fn s3 = (Inl (Error unavailableMessage), s3))))"
proof -
  have fast: "circuitState s = OPEN \<and> now \<le> nextTry s \<longrightarrow>
      withCircuitBreaker now later fn s = (Inl (Error unavailableMessage), s)"
    by (simp add: withCircuitBreaker_open_fast)
  have three: "circuitState s = CLOSED \<and> failureCount s = 0 \<and> failureThreshold s = 3 \<longrightarrow>
            (let s1 = snd (withCircuitBreaker t1 u1 f1 s);
                 s2 = snd (withCircuitBreaker t2 u2 f2 s1);
                 s3 = snd (withCircuitBreaker t3 u3 f3 s2)
             in circuitState s1 = CLOSED \<and> circuitState s2 = CLOSED
              \<and> circuitState s3 = OPEN \<and> nextTry s3 = u3 + resetTimeout s
              \<and> (now \<le> u3 + resetTimeout s \<longrightarrow>
                   withCircuitBreaker now later fn s3 = (Inl (Error unavailableMessage), s3)))"
  proof
    assume h: "circuitState s = CLOSED \<and> failureCount s = 0 \<and> failureThreshold s = 3"
    define s1 where "s1 = snd (withCircuitBreaker t1 u1 f1 s)"
    define s2 where "s2 = snd (withCircuitBreaker t2 u2 f2 s1)"
    define s3 where "s3 = snd (withCircuitBreaker t3 u3 f3 s2)"
    have p1: "circuitState s1 = CLOSED \<and> failureCount s1 = 1 \<and> failureThreshold s1 = 3
        \<and> resetTimeout s1 = resetTimeout s"
      using withCircuitBreaker_fail_fields [OF assms(1,2), of s t1 u1] h by (simp add: s1_def)
    have p2: "circuitState s2 = CLOSED \<and> failureCount s2 = 2 \<and> failureThreshold s2 = 3
        \<and> resetTimeout s2 = resetTimeout s"
      using withCircuitBreaker_fail_fields [OF assms(3,4), of s1 t2 u2] p1 by (simp add: s2_def)
    have p3: "circuitState s3 = OPEN \<and> nextTry s3 = u3 + resetTimeout s"
      using withCircuitBreaker_fail_fields [OF assms(5,6), of s2 t3 u3] p2 by (simp add: s3_def)
    have "now \<le> u3 + resetTimeout s \<longrightarrow>
        withCircuitBreaker now later fn s3 = (Inl (Error unavailableMessage), s3)"
      using p3 by (simp add: withCircuitBreaker_open_fast)
    with p1 p2 p3 show "let s1 = snd (withCircuitBreaker t1 u1 f1 s);
                 s2 = snd (withCircuitBreaker t2 u2 f2 s1);
                 s3 = snd (withCircuitBreaker t3 u3 f3 s2)
             in circuitState s1 = CLOSED \<and> circuitState s2 = CLOSED
              \<and> circuitState s3 = OPEN \<and> nextTry s3 = u3 + resetTimeout s
              \<and> (now \<le> u3 + resetTimeout s \<longrightarrow>
                   withCircuitBreaker now later fn s3 = (Inl (Error unavailableMessage), s3))"
      unfolding Let_def s1_def [symmetric] s2_def [symmetric] s3_def [symmetric] by simp
  qed
  from fast three show ?thesis by blast
qed

theorem breaker_fails_fast_witness:
  "remoteCalls (snd (withCircuitBreaker 400 401 answeredCall trippedService)) = 3
   \<and> fst (withCircuitBreaker 400 401 answeredCall trippedService)
       = Inl (Error unavailableMessage)"
proof -
  let ?s = "newService True ''Mon Nov 02 2026''"
  have h: "circuitState ?s = CLOSED \<and> failureCount ?s = 0 \<and> failureThreshold ?s = 3
      \<and> resetTimeout ?s = 60000"
    by (simp add: newService_def)
  have c: "remoteCalls trippedService = 3"
    by (simp add: trippedService_def newService_def withCircuitBreaker_def overloadedCall_def
        recordFailure_def)
  show ?thesis
    using breaker_fails_fast [of overloadedCall overloadedCall overloadedCall ?s 400 401
        answeredCall 100 101 200 201 300 301] overloadedCall_ok h c
    by (simp add: Let_def trippedService_def)
qed

section \<open>Properties of the text repair\<close>

lemma isSpace_simps:
  "\<not> isSpace quote" "\<not> isSpace (CHR ''{'')" "\<not> isSpace (CHR ''}'')"
  "\<not> isSpace (CHR ''['')" "\<not> isSpace (CHR '']'')" "\<not> isSpace (CHR '','')"
  by (simp_all add: isSpace_def quote_def)

lemma dropWhile_fixed: "xs = [] \<or> \<not> P (hd xs) \<Longrightarrow> dropWhile P xs = xs"
  by (cases xs) auto

lemma trim_fixed:
  assumes "t = [] \<or> (\<not> isSpace (hd t) \<and> \<not> isSpace (last t))"
  shows "trim t = t"
proof -
  have a: "dropWhile isSpace t = t"
    using assms by (intro dropWhile_fixed) auto
  have "rev t = [] \<or> \<not> isSpace (hd (rev t))"
    using assms by (cases "t = []") (simp_all add: hd_rev)
  then have "dropWhile isSpace (rev t) = rev t"
    by (rule dropWhile_fixed)
  with a show ?thesis by (simp add: trim_def)
qed

lemma trim_ends:
  "trim t = [] \<or> (\<not> isSpace (hd (trim t)) \<and> \<not> isSpace (last (trim t)))"
proof (cases "trim t = []")
  case True
  then show ?thesis by simp
next
  case False
  let ?u = "dropWhile isSpace t"
  let ?v = "dropWhile isSpace (rev ?u)"
  have v: "?v \<noteq> []" using False by (simp add: trim_def)
  then have lastv: "\<not> isSpace (hd ?v)" by (metis hd_dropWhile)
  have u: "?u \<noteq> []"
  proof
    assume "?u = []"
    then have "?v = []" by (metis dropWhile.simps(1) rev.simps(1))
    with v show False by simp
  qed
  then have hu: "\<not> isSpace (hd ?u)" by (metis hd_dropWhile)
  have "last (rev ?u) = hd ?u" using u by (simp add: last_rev)
  moreover have "last ?v = last (rev ?u)"
    using v by (metis last_appendR takeWhile_dropWhile_id)
  ultimately have "\<not> isSpace (last ?v)" using hu by simp
  then have "\<not> isSpace (hd (trim t))"
    using v by (simp add: trim_def hd_rev)
  moreover have "\<not> isSpace (last (trim t))"
    using v lastv by (simp add: trim_def last_rev)
  ultimately show ?thesis by simp
qed

lemma set_trim: "set (trim t) \<subseteq> set t"
proof -
  have "set (trim t) = set (dropWhile isSpace (rev (dropWhile isSpace t)))"
    by (simp add: trim_def)
  also have "\<dots> \<subseteq> set (rev (dropWhile isSpace t))"
    by (meson set_dropWhileD subsetI)
  also have "\<dots> \<subseteq> set t"
    using set_dropWhileD by fastforce
  finally show ?thesis .
qed

lemma stripOpeningFence_fixed: "CHR 0x60 \<notin> set t \<Longrightarrow> stripOpeningFence t = t"
  by (auto simp: stripOpeningFence_def prefix_def)

lemma stripClosingFence_fixed: "CHR 0x60 \<notin> set t \<Longrightarrow> stripClosingFence t = t"
  by (auto simp: stripClosingFence_def suffix_def)

lemma stringIncludes_set: "stringIncludes t sub \<Longrightarrow> set sub \<subseteq> set t"
proof (induction t)
  case Nil
  then show ?case by simp
next
  case (Cons a t)
  from Cons.prems have "prefix sub (a # t) \<or> stringIncludes t sub" by simp
  then show ?case
  proof
    assume "prefix sub (a # t)"
    then show ?thesis by (rule set_mono_prefix)
  next
    assume "stringIncludes t sub"
    then have "set sub \<subseteq> set t" by (rule Cons.IH)
    then show ?thesis by auto
  qed
qed

lemma fixEscapedQuotes_fixed: "quote \<notin> set t \<Longrightarrow> fixEscapedQuotes t = t"
  using stringIncludes_set [of t "[backslash, quote]"]
  by (auto simp: fixEscapedQuotes_def)

lemma stripControl_fixed: "\<forall>c \<in> set t. \<not> isControl c \<Longrightarrow> stripControl t = t"
  by (simp add: stripControl_def)

lemma matchSecondString_none: "newline \<notin> set rest \<Longrightarrow> matchSecondString rest = None"
  by (auto simp: matchSecondString_def dest: set_takeWhileD)

lemma matchFirstString_none: "newline \<notin> set t \<Longrightarrow> matchFirstString acc t = None"
  by (induction t arbitrary: acc) (simp_all add: matchSecondString_none)

lemma joinSplitStrings_fixed: "newline \<notin> set t \<Longrightarrow> joinSplitStrings t = t"
  by (induction t) (simp_all add: matchFirstString_none)

lemma closeOpenString_fixed: "quote \<notin> set t \<Longrightarrow> closeOpenString t = t"
  by (simp add: closeOpenString_def)

lemma count_list_replicate: "count_list (replicate n x) y = (if x = y then n else 0)"
  by (induction n) auto

lemma count_list_dropWhile:
  "\<not> P x \<Longrightarrow> count_list (dropWhile P xs) x = count_list xs x"
  by (induction xs) auto

lemma dropTrailingCommas_other:
  "c \<noteq> CHR '','' \<Longrightarrow> dropTrailingCommas (c # cs) = c # dropTrailingCommas cs"
  by simp

lemma dropTrailingCommas_keep:
  assumes "dropWhile isSpace cs = [] \<or>
      (\<exists>d ds. dropWhile isSpace cs = d # ds \<and> d \<noteq> CHR ''}'' \<and> d \<noteq> CHR '']'')"
  shows "dropTrailingCommas (c # cs) = c # dropTrailingCommas cs"
  using assms by (cases "dropWhile isSpace cs") (auto simp del: dropWhile_eq_Nil_conv)

lemma dropTrailingCommas_drop:
  assumes "dropWhile isSpace cs = d # ds" and "d = CHR ''}'' \<or> d = CHR '']''"
  shows "dropTrailingCommas (CHR '','' # cs) = d # dropTrailingCommas ds"
  using assms by auto

lemma insertMissingCommas_other:
  "c \<noteq> quote \<Longrightarrow> c \<noteq> CHR ''}'' \<Longrightarrow> c \<noteq> CHR '']'' \<Longrightarrow>
   insertMissingCommas (c # cs) = c # insertMissingCommas cs"
  by simp

lemma insertMissingCommas_keep:
  assumes "dropWhile isSpace cs = [] \<or>
      (\<exists>d ds. dropWhile isSpace cs = d # ds \<and> d \<noteq> quote \<and> d \<noteq> CHR ''{'')"
  shows "insertMissingCommas (c # cs) = c # insertMissingCommas cs"
  using assms by (cases "dropWhile isSpace cs") (auto simp del: dropWhile_eq_Nil_conv)

lemma insertMissingCommas_insert:
  assumes "c = quote \<or> c = CHR ''}'' \<or> c = CHR '']''"
    and "dropWhile isSpace cs = d # ds" and "d = quote \<or> d = CHR ''{''"
  shows "insertMissingCommas (c # cs) = c # CHR '','' # d # insertMissingCommas ds"
  using assms by auto

declare dropTrailingCommas.simps(2) [simp del]
declare insertMissingCommas.simps(2) [simp del]

lemma dropTrailingCommas_no_comma: "CHR '','' \<notin> set t \<Longrightarrow> dropTrailingCommas t = t"
  by (induction t) (auto simp: dropTrailingCommas_other)

lemma insertMissingCommas_spaces:
  "insertMissingCommas t = takeWhile isSpace t @ insertMissingCommas (dropWhile isSpace t)"
proof (induction t)
  case Nil
  then show ?case by simp
next
  case (Cons c cs)
  show ?case
  proof (cases "isSpace c")
    case True
    then have "c \<noteq> quote" "c \<noteq> CHR ''}''" "c \<noteq> CHR '']''"
      using isSpace_simps by auto
    then have "insertMissingCommas (c # cs) = c # insertMissingCommas cs"
      by (rule insertMissingCommas_other)
    with True Cons show ?thesis by simp
  next
    case False
    then show ?thesis by simp
  qed
qed

lemma insertMissingCommas_Cons: "\<exists>r. insertMissingCommas (d # ds) = d # r"
  by (simp add: insertMissingCommas.simps(2) split: list.split)

lemma closers_no_space:
  assumes "set k \<subseteq> {CHR ''}'', CHR '']''}"
  shows "dropWhile isSpace k = k"
proof (cases k)
  case Nil
  then show ?thesis by simp
next
  case (Cons c cs)
  with assms have "c = CHR ''}'' \<or> c = CHR '']''" by simp
  then have "\<not> isSpace c" using isSpace_simps by auto
  with Cons show ?thesis by simp
qed

lemma insertMissingCommas_closers:
  "set k \<subseteq> {CHR ''}'', CHR '']''} \<Longrightarrow> insertMissingCommas k = k"
proof (induction k)
  case Nil
  then show ?case by simp
next
  case (Cons c cs)
  then have cs: "set cs \<subseteq> {CHR ''}'', CHR '']''}" and ih: "insertMissingCommas cs = cs"
    by simp_all
  have dw: "dropWhile isSpace cs = cs" using cs by (rule closers_no_space)
  have "cs = [] \<or> (\<exists>d ds. cs = d # ds \<and> d \<noteq> quote \<and> d \<noteq> CHR ''{'')"
    using cs by (cases cs) (auto simp: quote_def)
  then have "insertMissingCommas (c # cs) = c # insertMissingCommas cs"
    using dw by (intro insertMissingCommas_keep) simp
  with ih show ?case by simp
qed

text \<open>What follows the white space after a repaired text is what followed it before.\<close>

lemma dropWhile_insertMissingCommas_append:
  assumes "set k \<subseteq> {CHR ''}'', CHR '']''}"
  shows "dropWhile isSpace (insertMissingCommas cs @ k) =
         (case dropWhile isSpace cs of
            [] \<Rightarrow> k
          | d # ds \<Rightarrow> insertMissingCommas (d # ds) @ k)"
proof -
  have split: "insertMissingCommas cs @ k =
      takeWhile isSpace cs @ (insertMissingCommas (dropWhile isSpace cs) @ k)"
    using insertMissingCommas_spaces [of cs] by simp
  have "dropWhile isSpace (insertMissingCommas cs @ k) =
      dropWhile isSpace (insertMissingCommas (dropWhile isSpace cs) @ k)"
    unfolding split by (rule dropWhile_append2) (auto dest: set_takeWhileD)
  also have "\<dots> = (case dropWhile isSpace cs of
            [] \<Rightarrow> k
          | d # ds \<Rightarrow> insertMissingCommas (d # ds) @ k)"
  proof (cases "dropWhile isSpace cs")
    case Nil
    then show ?thesis
      using closers_no_space [OF assms] by (simp del: dropWhile_eq_Nil_conv)
  next
    case (Cons d ds)
    then have "\<not> isSpace d" by (metis hd_dropWhile list.sel(1) list.distinct(1))
    moreover obtain r where "insertMissingCommas (d # ds) = d # r"
      using insertMissingCommas_Cons by blast
    ultimately show ?thesis using Cons by simp
  qed
  finally show ?thesis .
qed

lemma insertMissingCommas_settled:
  assumes "quote \<notin> set t" and "set k \<subseteq> {CHR ''}'', CHR '']''}"
  shows "insertMissingCommas (insertMissingCommas t @ k) = insertMissingCommas t @ k"
  using assms(1)
proof (induction t rule: insertMissingCommas.induct)
  case 1
  then show ?case using assms(2) by (simp add: insertMissingCommas_closers)
next
  case (2 c cs)
  have nq: "quote \<notin> set cs" and cq: "c \<noteq> quote" using "2.prems" by auto
  show ?case
  proof (cases "c = CHR ''}'' \<or> c = CHR '']''")
    case False
    then have o: "\<And>xs. insertMissingCommas (c # xs) = c # insertMissingCommas xs"
      using cq by (simp add: insertMissingCommas_other)
    have "insertMissingCommas (insertMissingCommas cs @ k) = insertMissingCommas cs @ k"
      using "2.IH"(4) False cq nq by simp
    then show ?thesis by (simp add: o)
  next
    case True
    then have cls: "c = quote \<or> c = CHR ''}'' \<or> c = CHR '']''" by simp
    show ?thesis
    proof (cases "dropWhile isSpace cs")
      case Nil
      then have e: "insertMissingCommas (c # cs) = c # insertMissingCommas cs"
        by (intro insertMissingCommas_keep) simp
      have ih: "insertMissingCommas (insertMissingCommas cs @ k) = insertMissingCommas cs @ k"
        using "2.IH"(1) [OF cls Nil] nq by simp
      have "dropWhile isSpace (insertMissingCommas cs @ k) = k"
        using dropWhile_insertMissingCommas_append [OF assms(2), of cs] Nil by simp
      moreover have "k = [] \<or> (\<exists>d ds. k = d # ds \<and> d \<noteq> quote \<and> d \<noteq> CHR ''{'')"
        using assms(2) by (cases k) (auto simp: quote_def)
      ultimately have "insertMissingCommas (c # (insertMissingCommas cs @ k)) =
          c # insertMissingCommas (insertMissingCommas cs @ k)"
        by (intro insertMissingCommas_keep) auto
      with e ih show ?thesis by simp
    next
      case (Cons d ds)
      have nqd: "quote \<notin> set ds" and dq: "d \<noteq> quote"
        using nq Cons by (metis list.set_intros set_dropWhileD)+
      show ?thesis
      proof (cases "d = CHR ''{''")
        case True
        then have e: "insertMissingCommas (c # cs) = c # CHR '','' # d # insertMissingCommas ds"
          using cls Cons by (intro insertMissingCommas_insert) simp_all
        have ih: "insertMissingCommas (insertMissingCommas ds @ k) = insertMissingCommas ds @ k"
          using "2.IH"(2) [OF cls Cons] True nqd by simp
        have "insertMissingCommas (c # CHR '','' # d # (insertMissingCommas ds @ k)) =
            c # insertMissingCommas (CHR '','' # d # (insertMissingCommas ds @ k))"
          using isSpace_simps by (intro insertMissingCommas_keep) (simp add: quote_def)
        also have "\<dots> = c # CHR '','' # insertMissingCommas (d # (insertMissingCommas ds @ k))"
          by (simp add: insertMissingCommas_other quote_def)
        also have "\<dots> = c # CHR '','' # d # insertMissingCommas (insertMissingCommas ds @ k)"
          using True by (simp add: insertMissingCommas_other quote_def)
        finally show ?thesis using e ih by simp
      next
        case False
        then have e: "insertMissingCommas (c # cs) = c # insertMissingCommas cs"
          using Cons dq by (intro insertMissingCommas_keep) simp
        have ih: "insertMissingCommas (insertMissingCommas cs @ k) = insertMissingCommas cs @ k"
          using "2.IH"(3) [OF cls Cons] False dq nq by simp
        obtain r where r: "insertMissingCommas (d # ds) = d # r"
          using insertMissingCommas_Cons by blast
        have "dropWhile isSpace (insertMissingCommas cs @ k) = d # r @ k"
          using dropWhile_insertMissingCommas_append [OF assms(2), of cs] Cons r by simp
        then have "insertMissingCommas (c # (insertMissingCommas cs @ k)) =
            c # insertMissingCommas (insertMissingCommas cs @ k)"
          using False dq by (intro insertMissingCommas_keep) simp
        with e ih show ?thesis by simp
      qed
    qed
  qed
qed

lemma dropTrailingCommas_settled:
  assumes "quote \<notin> set t" and "CHR '','' \<notin> set t" and "set k \<subseteq> {CHR ''}'', CHR '']''}"
  shows "dropTrailingCommas (insertMissingCommas t @ k) = insertMissingCommas t @ k"
  using assms(1,2)
proof (induction t rule: insertMissingCommas.induct)
  case 1
  have "CHR '','' \<notin> set k" using assms(3) by auto
  then show ?case by (simp add: dropTrailingCommas_no_comma)
next
  case (2 c cs)
  have nq: "quote \<notin> set cs" and cq: "c \<noteq> quote"
    and nc: "CHR '','' \<notin> set cs" and cc: "c \<noteq> CHR '',''"
    using "2.prems" by auto
  show ?case
  proof (cases "c = CHR ''}'' \<or> c = CHR '']''")
    case False
    then have "insertMissingCommas (c # cs) = c # insertMissingCommas cs"
      using cq by (simp add: insertMissingCommas_other)
    moreover have "dropTrailingCommas (insertMissingCommas cs @ k) = insertMissingCommas cs @ k"
      using "2.IH"(4) False cq nq nc by simp
    ultimately show ?thesis using cc by (simp add: dropTrailingCommas_other)
  next
    case True
    then have cls: "c = quote \<or> c = CHR ''}'' \<or> c = CHR '']''" by simp
    show ?thesis
    proof (cases "dropWhile isSpace cs")
      case Nil
      then have "insertMissingCommas (c # cs) = c # insertMissingCommas cs"
        by (intro insertMissingCommas_keep) simp
      moreover have "dropTrailingCommas (insertMissingCommas cs @ k) = insertMissingCommas cs @ k"
        using "2.IH"(1) [OF cls Nil] nq nc by simp
      ultimately show ?thesis using cc by (simp add: dropTrailingCommas_other)
    next
      case (Cons d ds)
      have nqd: "quote \<notin> set ds" and dq: "d \<noteq> quote"
        using nq Cons by (metis list.set_intros set_dropWhileD)+
      have ncd: "CHR '','' \<notin> set ds"
        using nc Cons by (metis list.set_intros(2) set_dropWhileD)
      show ?thesis
      proof (cases "d = CHR ''{''")
        case True
        then have e: "insertMissingCommas (c # cs) = c # CHR '','' # d # insertMissingCommas ds"
          using cls Cons by (intro insertMissingCommas_insert) simp_all
        have ih: "dropTrailingCommas (insertMissingCommas ds @ k) = insertMissingCommas ds @ k"
          using "2.IH"(2) [OF cls Cons] True nqd ncd by simp
        have "dropTrailingCommas (c # CHR '','' # d # (insertMissingCommas ds @ k)) =
            c # dropTrailingCommas (CHR '','' # d # (insertMissingCommas ds @ k))"
          using cc by (simp add: dropTrailingCommas_other)
        also have "\<dots> = c # CHR '','' # dropTrailingCommas (d # (insertMissingCommas ds @ k))"
          using True isSpace_simps by (subst dropTrailingCommas_keep) simp_all
        also have "\<dots> = c # CHR '','' # d # dropTrailingCommas (insertMissingCommas ds @ k)"
          using True by (simp add: dropTrailingCommas_other)
        finally show ?thesis using e ih by simp
      next
        case False
        then have "insertMissingCommas (c # cs) = c # insertMissingCommas cs"
          using Cons dq by (intro insertMissingCommas_keep) simp
        moreover have "dropTrailingCommas (insertMissingCommas cs @ k) = insertMissingCommas cs @ k"
          using "2.IH"(3) [OF cls Cons] False dq nq nc by simp
        ultimately show ?thesis using cc by (simp add: dropTrailingCommas_other)
      qed
    qed
  qed
qed

lemma count_list_insertMissingCommas:
  assumes "\<not> isSpace x" and "x \<noteq> CHR '',''"
  shows "count_list (insertMissingCommas t) x = count_list t x"
proof (induction t rule: insertMissingCommas.induct)
  case 1
  then show ?case by simp
next
  case (2 c cs)
  show ?case
  proof (cases "c = quote \<or> c = CHR ''}'' \<or> c = CHR '']''")
    case False
    then have "insertMissingCommas (c # cs) = c # insertMissingCommas cs"
      by (simp add: insertMissingCommas_other)
    then show ?thesis using "2.IH"(4) False by simp
  next
    case cls: True
    show ?thesis
    proof (cases "dropWhile isSpace cs")
      case Nil
      then have "insertMissingCommas (c # cs) = c # insertMissingCommas cs"
        by (intro insertMissingCommas_keep) simp
      then show ?thesis using "2.IH"(1) [OF cls Nil] by simp
    next
      case (Cons d ds)
      have cnt: "count_list cs x = count_list (d # ds) x"
        using count_list_dropWhile [of isSpace x cs] assms(1) Cons by simp
      show ?thesis
      proof (cases "d = quote \<or> d = CHR ''{''")
        case True
        then have "insertMissingCommas (c # cs) = c # CHR '','' # d # insertMissingCommas ds"
          using cls Cons by (intro insertMissingCommas_insert) simp_all
        then show ?thesis using "2.IH"(2) [OF cls Cons True] cnt assms(2) by simp
      next
        case False
        then have "insertMissingCommas (c # cs) = c # insertMissingCommas cs"
          using Cons by (intro insertMissingCommas_keep) simp
        then show ?thesis using "2.IH"(3) [OF cls Cons False] by simp
      qed
    qed
  qed
qed

lemma set_insertMissingCommas: "set (insertMissingCommas t) \<subseteq> insert (CHR '','') (set t)"
proof (induction t rule: insertMissingCommas.induct)
  case 1
  then show ?case by simp
next
  case (2 c cs)
  show ?case
  proof (cases "c = quote \<or> c = CHR ''}'' \<or> c = CHR '']''")
    case False
    then have "insertMissingCommas (c # cs) = c # insertMissingCommas cs"
      by (simp add: insertMissingCommas_other)
    then show ?thesis using "2.IH"(4) False by auto
  next
    case cls: True
    show ?thesis
    proof (cases "dropWhile isSpace cs")
      case Nil
      then have "insertMissingCommas (c # cs) = c # insertMissingCommas cs"
        by (intro insertMissingCommas_keep) simp
      then show ?thesis using "2.IH"(1) [OF cls Nil] by auto
    next
      case (Cons d ds)
      have sub: "set (d # ds) \<subseteq> set cs"
        using Cons by (metis set_dropWhileD subsetI)
      show ?thesis
      proof (cases "d = quote \<or> d = CHR ''{''")
        case True
        then have "insertMissingCommas (c # cs) = c # CHR '','' # d # insertMissingCommas ds"
          using cls Cons by (intro insertMissingCommas_insert) simp_all
        then show ?thesis using "2.IH"(2) [OF cls Cons True] sub by auto
      next
        case False
        then have "insertMissingCommas (c # cs) = c # insertMissingCommas cs"
          using Cons by (intro insertMissingCommas_keep) simp
        then show ?thesis using "2.IH"(3) [OF cls Cons False] by auto
      qed
    qed
  qed
qed

lemma insertMissingCommas_last:
  "t \<noteq> [] \<Longrightarrow> \<not> isSpace (last t) \<Longrightarrow>
   insertMissingCommas t \<noteq> [] \<and> last (insertMissingCommas t) = last t"
proof (induction t rule: insertMissingCommas.induct)
  case 1
  then show ?case by simp
next
  case (2 c cs)
  have tail: "cs \<noteq> [] \<Longrightarrow> \<not> isSpace (last cs)" using "2.prems" by simp
  have keep: "insertMissingCommas (c # cs) = c # insertMissingCommas cs \<Longrightarrow>
      (cs \<noteq> [] \<Longrightarrow> insertMissingCommas cs \<noteq> [] \<and> last (insertMissingCommas cs) = last cs) \<Longrightarrow>
      ?case"
    by (cases "cs = []") simp_all
  show ?case
  proof (cases "c = quote \<or> c = CHR ''}'' \<or> c = CHR '']''")
    case False
    then have "insertMissingCommas (c # cs) = c # insertMissingCommas cs"
      by (simp add: insertMissingCommas_other)
    then show ?thesis using "2.IH"(4) False tail by (intro keep) simp_all
  next
    case cls: True
    show ?thesis
    proof (cases "dropWhile isSpace cs")
      case Nil
      then have "insertMissingCommas (c # cs) = c # insertMissingCommas cs"
        by (intro insertMissingCommas_keep) simp
      then show ?thesis using "2.IH"(1) [OF cls Nil] tail by (intro keep) simp_all
    next
      case (Cons d ds)
      have cs: "cs = takeWhile isSpace cs @ d # ds"
        using Cons by (metis takeWhile_dropWhile_id)
      have lastcs: "last cs = last (d # ds)"
        by (subst cs) simp
      show ?thesis
      proof (cases "d = quote \<or> d = CHR ''{''")
        case True
        then have e: "insertMissingCommas (c # cs) = c # CHR '','' # d # insertMissingCommas ds"
          using cls Cons by (intro insertMissingCommas_insert) simp_all
        have "cs \<noteq> []" using Cons by auto
        then have l: "\<not> isSpace (last (d # ds))" using tail lastcs by simp
        show ?thesis
        proof (cases "ds = []")
          case True
          then show ?thesis using e lastcs \<open>cs \<noteq> []\<close> by simp
        next
          case False
          then have "insertMissingCommas ds \<noteq> [] \<and> last (insertMissingCommas ds) = last ds"
            using "2.IH"(2) [OF cls Cons True] l by simp
          then show ?thesis using e lastcs \<open>cs \<noteq> []\<close> False by simp
        qed
      next
        case False
        then have "insertMissingCommas (c # cs) = c # insertMissingCommas cs"
          using Cons by (intro insertMissingCommas_keep) simp
        then show ?thesis using "2.IH"(3) [OF cls Cons False] tail by (intro keep) simp_all
      qed
    qed
  qed
qed

lemma insertMissingCommas_hd:
  "(insertMissingCommas t = [] \<longleftrightarrow> t = []) \<and> hd (insertMissingCommas t) = hd t"
proof (cases t)
  case Nil
  then show ?thesis by simp
next
  case (Cons d ds)
  obtain r where "insertMissingCommas (d # ds) = d # r"
    using insertMissingCommas_Cons by blast
  with Cons show ?thesis by simp
qed

lemma completeDelimiters_append:
  "completeDelimiters t =
     t @ replicate (count_list t (CHR ''{'') - count_list t (CHR ''}'')) (CHR ''}'')
       @ replicate (count_list t (CHR ''['') - count_list t (CHR '']'')) (CHR '']'')"
  by (simp add: completeDelimiters_def Let_def)

lemma completeDelimiters_fixed:
  "count_list t (CHR ''{'') \<le> count_list t (CHR ''}'') \<Longrightarrow>
   count_list t (CHR ''['') \<le> count_list t (CHR '']'') \<Longrightarrow> completeDelimiters t = t"
  by (simp add: completeDelimiters_append)

lemma unaffected_chars:
  "c = CHR '','' \<or> c = CHR ''}'' \<or> c = CHR '']'' \<Longrightarrow>
   c \<noteq> quote \<and> c \<noteq> CHR 0x60 \<and> \<not> isControl c"
  by (auto simp: quote_def isControl_def)

text \<open>A text that every step of the repair leaves alone.\<close>

lemma scrubJsonText_fixed:
  assumes ends: "y = [] \<or> (\<not> isSpace (hd y) \<and> \<not> isSpace (last y))"
    and chars: "\<forall>c \<in> set y. c \<noteq> quote \<and> c \<noteq> CHR 0x60 \<and> \<not> isControl c"
    and commas: "dropTrailingCommas y = y"
    and joined: "insertMissingCommas y = y"
    and braces: "count_list y (CHR ''{'') \<le> count_list y (CHR ''}'')"
    and brackets: "count_list y (CHR ''['') \<le> count_list y (CHR '']'')"
  shows "scrubJsonText y = y"
proof -
  have "isControl newline" by (simp add: isControl_def newline_def)
  then have nl: "newline \<notin> set y"
    using chars by blast
  have q: "quote \<notin> set y" and b: "CHR 0x60 \<notin> set y" and c: "\<forall>c \<in> set y. \<not> isControl c"
    using chars by auto
  have 1: "trim y = y" using ends by (rule trim_fixed)
  have 2: "stripClosingFence (stripOpeningFence y) = y"
    using b by (simp add: stripOpeningFence_fixed stripClosingFence_fixed)
  have 3: "fixEscapedQuotes y = y" using q by (rule fixEscapedQuotes_fixed)
  have 6: "stripControl y = y" using c by (rule stripControl_fixed)
  have 7: "completeDelimiters y = y" using braces brackets by (rule completeDelimiters_fixed)
  have 8: "joinSplitStrings y = y" using nl by (rule joinSplitStrings_fixed)
  have 9: "closeOpenString y = y" using q by (rule closeOpenString_fixed)
  show ?thesis
    unfolding scrubJsonText_def Let_def 1 2 3 commas joined 6 7 8 9 ..
qed

text \<open>On plain text the repair joins adjacent delimiters and appends the missing closers.\<close>

lemma scrubJsonText_plain:
  assumes "plainText x"
  shows "scrubJsonText x =
     insertMissingCommas (trim x)
       @ replicate (count_list (trim x) (CHR ''{'') - count_list (trim x) (CHR ''}'')) (CHR ''}'')
       @ replicate (count_list (trim x) (CHR ''['') - count_list (trim x) (CHR '']'')) (CHR '']'')"
proof -
  let ?t = "trim x"
  let ?u = "insertMissingCommas ?t"
  have pt: "\<forall>c \<in> set ?t. c \<noteq> quote \<and> c \<noteq> CHR '','' \<and> c \<noteq> CHR 0x60 \<and> \<not> isControl c"
    using assms set_trim [of x] by (auto simp: plainText_def)
  have pu: "\<forall>c \<in> set ?u. c \<noteq> quote \<and> c \<noteq> CHR 0x60 \<and> \<not> isControl c"
  proof
    fix c assume "c \<in> set ?u"
    then have "c = CHR '','' \<or> c \<in> set ?t"
      using set_insertMissingCommas [of ?t] by blast
    then show "c \<noteq> quote \<and> c \<noteq> CHR 0x60 \<and> \<not> isControl c"
      using pt unaffected_chars [of c] by blast
  qed
  have "CHR 0x60 \<notin> set ?t" using pt by blast
  then have 2: "stripClosingFence (stripOpeningFence ?t) = ?t"
    by (simp add: stripOpeningFence_fixed stripClosingFence_fixed)
  have 3: "fixEscapedQuotes ?t = ?t" using pt by (intro fixEscapedQuotes_fixed) auto
  have 4: "dropTrailingCommas ?t = ?t" using pt by (intro dropTrailingCommas_no_comma) auto
  have 6: "stripControl ?u = ?u" using pu by (intro stripControl_fixed) auto
  have cnt: "count_list ?u (CHR ''{'') = count_list ?t (CHR ''{'')"
    "count_list ?u (CHR ''}'') = count_list ?t (CHR ''}'')"
    "count_list ?u (CHR ''['') = count_list ?t (CHR ''['')"
    "count_list ?u (CHR '']'') = count_list ?t (CHR '']'')"
    using isSpace_simps by (simp_all add: count_list_insertMissingCommas)
  let ?y = "completeDelimiters ?u"
  have y: "?y = ?u
       @ replicate (count_list ?t (CHR ''{'') - count_list ?t (CHR ''}'')) (CHR ''}'')
       @ replicate (count_list ?t (CHR ''['') - count_list ?t (CHR '']'')) (CHR '']'')"
    by (simp add: completeDelimiters_append cnt)
  have py: "\<forall>c \<in> set ?y. c \<noteq> quote \<and> c \<noteq> CHR 0x60 \<and> \<not> isControl c"
  proof
    fix c assume "c \<in> set ?y"
    then have "c \<in> set ?u \<or> c = CHR ''}'' \<or> c = CHR '']''"
      unfolding y by (auto split: if_splits)
    then show "c \<noteq> quote \<and> c \<noteq> CHR 0x60 \<and> \<not> isControl c"
      using pu unaffected_chars [of c] by blast
  qed
  have "isControl newline" by (simp add: isControl_def newline_def)
  then have 8: "joinSplitStrings ?y = ?y"
    using py by (intro joinSplitStrings_fixed) blast
  have 9: "closeOpenString ?y = ?y" using py by (intro closeOpenString_fixed) auto
  have "scrubJsonText x = ?y"
    unfolding scrubJsonText_def Let_def 2 3 4 6 8 9 ..
  then show ?thesis using y by simp
qed

text \<open>
  C3, as the code has it. On text that holds no quote, no comma, no backtick and no control
  character the repair is idempotent: repairing the repaired text changes nothing.
\<close>

theorem scrubJsonText_idempotent_plain:
  assumes "plainText x"
  shows "scrubJsonText (scrubJsonText x) = scrubJsonText x"
proof -
  let ?t = "trim x"
  let ?u = "insertMissingCommas ?t"
  define a where "a = count_list ?t (CHR ''{'') - count_list ?t (CHR ''}'')"
  define b where "b = count_list ?t (CHR ''['') - count_list ?t (CHR '']'')"
  define k where "k = replicate a (CHR ''}'') @ replicate b (CHR '']'')"
  define y where "y = ?u @ k"
  have sx: "scrubJsonText x = y"
    using scrubJsonText_plain [OF assms] by (simp add: y_def k_def a_def b_def)
  have k: "set k \<subseteq> {CHR ''}'', CHR '']''}" by (auto simp: k_def)
  have pt: "\<forall>c \<in> set ?t. c \<noteq> quote \<and> c \<noteq> CHR '','' \<and> c \<noteq> CHR 0x60 \<and> \<not> isControl c"
    using assms set_trim [of x] by (auto simp: plainText_def)
  have pu: "\<forall>c \<in> set ?u. c \<noteq> quote \<and> c \<noteq> CHR 0x60 \<and> \<not> isControl c"
  proof
    fix c assume "c \<in> set ?u"
    then have "c = CHR '','' \<or> c \<in> set ?t"
      using set_insertMissingCommas [of ?t] by blast
    then show "c \<noteq> quote \<and> c \<noteq> CHR 0x60 \<and> \<not> isControl c"
      using pt unaffected_chars [of c] by blast
  qed
  have chars: "\<forall>c \<in> set y. c \<noteq> quote \<and> c \<noteq> CHR 0x60 \<and> \<not> isControl c"
  proof
    fix c assume "c \<in> set y"
    then have "c \<in> set ?u \<or> c = CHR ''}'' \<or> c = CHR '']''"
      using k by (auto simp: y_def)
    then show "c \<noteq> quote \<and> c \<noteq> CHR 0x60 \<and> \<not> isControl c"
      using pu unaffected_chars [of c] by blast
  qed
  have commas: "dropTrailingCommas y = y"
    unfolding y_def using pt k by (intro dropTrailingCommas_settled) auto
  have joined: "insertMissingCommas y = y"
    unfolding y_def using pt k by (intro insertMissingCommas_settled) auto
  have cnt: "count_list ?u (CHR ''{'') = count_list ?t (CHR ''{'')"
    "count_list ?u (CHR ''}'') = count_list ?t (CHR ''}'')"
    "count_list ?u (CHR ''['') = count_list ?t (CHR ''['')"
    "count_list ?u (CHR '']'') = count_list ?t (CHR '']'')"
    using isSpace_simps by (simp_all add: count_list_insertMissingCommas)
  have braces: "count_list y (CHR ''{'') \<le> count_list y (CHR ''}'')"
    by (simp add: y_def k_def cnt count_list_replicate a_def)
  have brackets: "count_list y (CHR ''['') \<le> count_list y (CHR '']'')"
    by (simp add: y_def k_def cnt count_list_replicate b_def)
  have ends: "y = [] \<or> (\<not> isSpace (hd y) \<and> \<not> isSpace (last y))"
  proof (cases "?t = []")
    case True
    then have "y = []" by (simp add: y_def k_def a_def b_def)
    then show ?thesis by simp
  next
    case False
    then have te: "\<not> isSpace (hd ?t)" "\<not> isSpace (last ?t)"
      using trim_ends [of x] by auto
    have une: "?u \<noteq> []" and hu: "hd ?u = hd ?t"
      using insertMissingCommas_hd [of ?t] False by auto
    have lu: "last ?u = last ?t"
      using insertMissingCommas_last [OF False te(2)] by simp
    have "hd y = hd ?t" using une hu by (simp add: y_def)
    moreover have "\<not> isSpace (last y)"
    proof (cases "k = []")
      case True
      then show ?thesis using une lu te by (simp add: y_def)
    next
      case False
      then have "last y = last k" by (simp add: y_def)
      moreover have "last k \<in> set k" using False by simp
      ultimately have "last y = CHR ''}'' \<or> last y = CHR '']''" using k by auto
      then show ?thesis using isSpace_simps by auto
    qed
    ultimately show ?thesis using te by simp
  qed
  have "scrubJsonText y = y"
    using ends chars commas joined braces brackets by (rule scrubJsonText_fixed)
  then show ?thesis by (simp add: sx)
qed

text \<open>Two runs of the repair on concrete texts, step by step.\<close>

lemmas scrub_eval = trim_def isSpace_def quote_def backslash_def newline_def
  stripOpeningFence_def stripClosingFence_def fixEscapedQuotes_def stripControl_def isControl_def
  completeDelimiters_def closeOpenString_def matchSecondString_def suffix_to_prefix
  insertMissingCommas.simps dropTrailingCommas.simps

lemma scrubJsonText_delimiters_example: "scrubJsonText ''[{ } {  ] {'' = ''[{ },{  ],{}}''"
proof -
  have 1: "trim ''[{ } {  ] {'' = ''[{ } {  ] {''" by (simp add: scrub_eval)
  have 2: "stripClosingFence (stripOpeningFence ''[{ } {  ] {'') = ''[{ } {  ] {''"
    by (simp add: scrub_eval)
  have 3: "fixEscapedQuotes ''[{ } {  ] {'' = ''[{ } {  ] {''" by (simp add: scrub_eval)
  have 4: "dropTrailingCommas ''[{ } {  ] {'' = ''[{ } {  ] {''" by (simp add: scrub_eval)
  have 5: "insertMissingCommas ''[{ } {  ] {'' = ''[{ },{  ],{''" by (simp add: scrub_eval)
  have 6: "stripControl ''[{ },{  ],{'' = ''[{ },{  ],{''" by (simp add: scrub_eval)
  have 7: "completeDelimiters ''[{ },{  ],{'' = ''[{ },{  ],{}}''" by (simp add: scrub_eval)
  have 8: "joinSplitStrings ''[{ },{  ],{}}'' = ''[{ },{  ],{}}''" by (simp add: scrub_eval)
  have 9: "closeOpenString ''[{ },{  ],{}}'' = ''[{ },{  ],{}}''" by (simp add: scrub_eval)
  show ?thesis
    unfolding scrubJsonText_def Let_def 1 2 3 4 5 6 7 8 9 ..
qed

theorem scrubJsonText_idempotent_plain_witness:
  "plainText ''[{ } {  ] {''
   \<and> scrubJsonText ''[{ } {  ] {'' = ''[{ },{  ],{}}''
   \<and> scrubJsonText ''[{ },{  ],{}}'' = ''[{ },{  ],{}}''"
proof -
  have p: "plainText ''[{ } {  ] {''"
    by (simp add: plainText_def quote_def isControl_def)
  show ?thesis
    using scrubJsonText_idempotent_plain [OF p] p scrubJsonText_delimiters_example by simp
qed

lemma scrubJsonText_quote: "scrubJsonText [quote] = [quote, quote]"
proof -
  have 1: "trim [quote] = [quote]" by (simp add: scrub_eval)
  have 2: "stripClosingFence (stripOpeningFence [quote]) = [quote]" by (simp add: scrub_eval)
  have 3: "fixEscapedQuotes [quote] = [quote]" by (simp add: scrub_eval)
  have 4: "dropTrailingCommas [quote] = [quote]" by (simp add: scrub_eval)
  have 5: "insertMissingCommas [quote] = [quote]" by (simp add: scrub_eval)
  have 6: "stripControl [quote] = [quote]" by (simp add: scrub_eval)
  have 7: "completeDelimiters [quote] = [quote]" by (simp add: scrub_eval)
  have 8: "joinSplitStrings [quote] = [quote]" by (simp add: scrub_eval)
  have 9: "closeOpenString [quote] = [quote, quote]" by (simp add: scrub_eval)
  show ?thesis
    unfolding scrubJsonText_def Let_def 1 2 3 4 5 6 7 8 9 ..
qed

lemma scrubJsonText_empty_string:
  "scrubJsonText [quote, quote] = [quote, CHR '','', quote]"
proof -
  have 1: "trim [quote, quote] = [quote, quote]" by (simp add: scrub_eval)
  have 2: "stripClosingFence (stripOpeningFence [quote, quote]) = [quote, quote]"
    by (simp add: scrub_eval)
  have 3: "fixEscapedQuotes [quote, quote] = [quote, quote]" by (simp add: scrub_eval)
  have 4: "dropTrailingCommas [quote, quote] = [quote, quote]" by (simp add: scrub_eval)
  have 5: "insertMissingCommas [quote, quote] = [quote, CHR '','', quote]"
    by (simp add: scrub_eval)
  have 6: "stripControl [quote, CHR '','', quote] = [quote, CHR '','', quote]"
    by (simp add: scrub_eval)
  have 7: "completeDelimiters [quote, CHR '','', quote] = [quote, CHR '','', quote]"
    by (simp add: scrub_eval)
  have 8: "joinSplitStrings [quote, CHR '','', quote] = [quote, CHR '','', quote]"
    by (simp add: scrub_eval)
  have 9: "closeOpenString [quote, CHR '','', quote] = [quote, CHR '','', quote]"
    by (simp add: scrub_eval)
  show ?thesis
    unfolding scrubJsonText_def Let_def 1 2 3 4 5 6 7 8 9 ..
qed

text \<open>
  C3 as stated fails: the text of one quote is repaired to two quotes, and repairing those
  inserts a comma between them.
\<close>

theorem scrubJsonText_not_idempotent_counterexample:
  "scrubJsonText (scrubJsonText [CHR 0x22]) \<noteq> scrubJsonText [CHR 0x22]"
  using scrubJsonText_quote scrubJsonText_empty_string by (simp add: quote_def)

text \<open>
  Each exclusion of plain text is needed: a text with two commas before a brace, a text
  that starts with a control character and a space, and a text with two opening fences are
  each changed again by a second repair.
\<close>

lemma scrubJsonText_commas_once: "scrubJsonText '',,}'' = '',}''"
proof -
  have 1: "trim '',,}'' = '',,}''" by (simp add: scrub_eval)
  have 2: "stripClosingFence (stripOpeningFence '',,}'') = '',,}''"
    by (simp add: scrub_eval)
  have 3: "fixEscapedQuotes '',,}'' = '',,}''" by (simp add: scrub_eval)
  have 4: "dropTrailingCommas '',,}'' = '',}''" by (simp add: scrub_eval)
  have 5: "insertMissingCommas '',}'' = '',}''" by (simp add: scrub_eval)
  have 6: "stripControl '',}'' = '',}''" by (simp add: scrub_eval)
  have 7: "completeDelimiters '',}'' = '',}''" by (simp add: scrub_eval)
  have 8: "joinSplitStrings '',}'' = '',}''" by (simp add: scrub_eval)
  have 9: "closeOpenString '',}'' = '',}''" by (simp add: scrub_eval)
  show ?thesis
    unfolding scrubJsonText_def Let_def 1 2 3 4 5 6 7 8 9 ..
qed

lemma scrubJsonText_commas_twice: "scrubJsonText '',}'' = ''}''"
proof -
  have 1: "trim '',}'' = '',}''" by (simp add: scrub_eval)
  have 2: "stripClosingFence (stripOpeningFence '',}'') = '',}''"
    by (simp add: scrub_eval)
  have 3: "fixEscapedQuotes '',}'' = '',}''" by (simp add: scrub_eval)
  have 4: "dropTrailingCommas '',}'' = ''}''" by (simp add: scrub_eval)
  have 5: "insertMissingCommas ''}'' = ''}''" by (simp add: scrub_eval)
  have 6: "stripControl ''}'' = ''}''" by (simp add: scrub_eval)
  have 7: "completeDelimiters ''}'' = ''}''" by (simp add: scrub_eval)
  have 8: "joinSplitStrings ''}'' = ''}''" by (simp add: scrub_eval)
  have 9: "closeOpenString ''}'' = ''}''" by (simp add: scrub_eval)
  show ?thesis
    unfolding scrubJsonText_def Let_def 1 2 3 4 5 6 7 8 9 ..
qed

lemma scrubJsonText_control_once: "scrubJsonText ([CHR 0x00] @ '' a'') = '' a''"
proof -
  have 1: "trim ([CHR 0x00] @ '' a'') = ([CHR 0x00] @ '' a'')" by (simp add: scrub_eval)
  have 2: "stripClosingFence (stripOpeningFence ([CHR 0x00] @ '' a'')) = ([CHR 0x00] @ '' a'')"
    by (simp add: scrub_eval)
  have 3: "fixEscapedQuotes ([CHR 0x00] @ '' a'') = ([CHR 0x00] @ '' a'')" by (simp add: scrub_eval)
  have 4: "dropTrailingCommas ([CHR 0x00] @ '' a'') = ([CHR 0x00] @ '' a'')" by (simp add: scrub_eval)
  have 5: "insertMissingCommas ([CHR 0x00] @ '' a'') = ([CHR 0x00] @ '' a'')" by (simp add: scrub_eval)
  have 6: "stripControl ([CHR 0x00] @ '' a'') = '' a''" by (simp add: scrub_eval)
  have 7: "completeDelimiters '' a'' = '' a''" by (simp add: scrub_eval)
  have 8: "joinSplitStrings '' a'' = '' a''" by (simp add: scrub_eval)
  have 9: "closeOpenString '' a'' = '' a''" by (simp add: scrub_eval)
  show ?thesis
    unfolding scrubJsonText_def Let_def 1 2 3 4 5 6 7 8 9 ..
qed

lemma scrubJsonText_control_twice: "scrubJsonText '' a'' = ''a''"
proof -
  have 1: "trim '' a'' = ''a''" by (simp add: scrub_eval)
  have 2: "stripClosingFence (stripOpeningFence ''a'') = ''a''"
    by (simp add: scrub_eval)
  have 3: "fixEscapedQuotes ''a'' = ''a''" by (simp add: scrub_eval)
  have 4: "dropTrailingCommas ''a'' = ''a''" by (simp add: scrub_eval)
  have 5: "insertMissingCommas ''a'' = ''a''" by (simp add: scrub_eval)
  have 6: "stripControl ''a'' = ''a''" by (simp add: scrub_eval)
  have 7: "completeDelimiters ''a'' = ''a''" by (simp add: scrub_eval)
  have 8: "joinSplitStrings ''a'' = ''a''" by (simp add: scrub_eval)
  have 9: "closeOpenString ''a'' = ''a''" by (simp add: scrub_eval)
  show ?thesis
    unfolding scrubJsonText_def Let_def 1 2 3 4 5 6 7 8 9 ..
qed

lemma scrubJsonText_fence_once: "scrubJsonText ''```json```json{}'' = ''```json{}''"
proof -
  have 1: "trim ''```json```json{}'' = ''```json```json{}''" by (simp add: scrub_eval)
  have 2: "stripClosingFence (stripOpeningFence ''```json```json{}'') = ''```json{}''"
    by (simp add: scrub_eval)
  have 3: "fixEscapedQuotes ''```json{}'' = ''```json{}''" by (simp add: scrub_eval)
  have 4: "dropTrailingCommas ''```json{}'' = ''```json{}''" by (simp add: scrub_eval)
  have 5: "insertMissingCommas ''```json{}'' = ''```json{}''" by (simp add: scrub_eval)
  have 6: "stripControl ''```json{}'' = ''```json{}''" by (simp add: scrub_eval)
  have 7: "completeDelimiters ''```json{}'' = ''```json{}''" by (simp add: scrub_eval)
  have 8: "joinSplitStrings ''```json{}'' = ''```json{}''" by (simp add: scrub_eval)
  have 9: "closeOpenString ''```json{}'' = ''```json{}''" by (simp add: scrub_eval)
  show ?thesis
    unfolding scrubJsonText_def Let_def 1 2 3 4 5 6 7 8 9 ..
qed

lemma scrubJsonText_fence_twice: "scrubJsonText ''```json{}'' = ''{}''"
proof -
  have 1: "trim ''```json{}'' = ''```json{}''" by (simp add: scrub_eval)
  have 2: "stripClosingFence (stripOpeningFence ''```json{}'') = ''{}''"
    by (simp add: scrub_eval)
  have 3: "fixEscapedQuotes ''{}'' = ''{}''" by (simp add: scrub_eval)
  have 4: "dropTrailingCommas ''{}'' = ''{}''" by (simp add: scrub_eval)
  have 5: "insertMissingCommas ''{}'' = ''{}''" by (simp add: scrub_eval)
  have 6: "stripControl ''{}'' = ''{}''" by (simp add: scrub_eval)
  have 7: "completeDelimiters ''{}'' = ''{}''" by (simp add: scrub_eval)
  have 8: "joinSplitStrings ''{}'' = ''{}''" by (simp add: scrub_eval)
  have 9: "closeOpenString ''{}'' = ''{}''" by (simp add: scrub_eval)
  show ?thesis
    unfolding scrubJsonText_def Let_def 1 2 3 4 5 6 7 8 9 ..
qed

lemma scrubJsonText_changes_again:
  "scrubJsonText (scrubJsonText '',,}'') \<noteq> scrubJsonText '',,}''
   \<and> scrubJsonText (scrubJsonText ([CHR 0x00] @ '' a'')) \<noteq> scrubJsonText ([CHR 0x00] @ '' a'')
   \<and> scrubJsonText (scrubJsonText ''```json```json{}'') \<noteq> scrubJsonText ''```json```json{}''"
  using scrubJsonText_commas_once scrubJsonText_commas_twice
    scrubJsonText_control_once scrubJsonText_control_twice
    scrubJsonText_fence_once scrubJsonText_fence_twice
  by simp

section \<open>Properties of ATS scoring\<close>








section \<open>Normalisation\<close>


lemma getProp_error_any: "getProp v key = Inl e \<Longrightarrow> v = JNull \<or> v = JUndefined"
  by (cases v) (simp_all add: getProp_def)



section \<open>Local enrichment fills gaps only\<close>

lemma orElse_populated: "populated x \<Longrightarrow> Some (orElse x y) = x"
  by (cases x) (simp_all add: populated_def orElse_def)

lemma orElse_missing: "\<not> populated x \<Longrightarrow> orElse x y = y"
  by (cases x) (simp_all add: populated_def orElse_def)

lemma orElseList_present: "x \<noteq> None \<Longrightarrow> Some (orElseList x y) = x"
  by (cases x) (simp_all add: orElseList_def)

lemma enrichProject_frame:
  "proj_name (enrichProject sk p) = proj_name p
   \<and> proj_technologies (enrichProject sk p) = proj_technologies p
   \<and> (populated (proj_description p) \<longrightarrow>
        proj_description (enrichProject sk p) = proj_description p)
   \<and> (\<not> populated (proj_description p) \<longrightarrow>
        proj_description (enrichProject sk p) = Some (enhanceProjectDescription p sk))
   \<and> (proj_outcomes p \<noteq> None \<longrightarrow> proj_outcomes (enrichProject sk p) = proj_outcomes p)
   \<and> (proj_outcomes p = None \<longrightarrow>
        proj_outcomes (enrichProject sk p) = Some (generateProjectOutcomes p))"
  by (simp add: enrichProject_def orElse_populated orElse_missing orElseList_present)
    (simp add: orElseList_def)

lemma enrichAchievement_frame:
  "ach_title (enrichAchievement a) = ach_title a
   \<and> ach_date (enrichAchievement a) = ach_date a
   \<and> (populated (ach_description a) \<longrightarrow>
        ach_description (enrichAchievement a) = ach_description a)
   \<and> (\<not> populated (ach_description a) \<longrightarrow>
        ach_description (enrichAchievement a) = Some (enhanceAchievementDescription a))"
  by (simp add: enrichAchievement_def orElse_populated orElse_missing)

lemma enrichEducation_frame:
  "edu_institution (enrichEducation P edus role e) = edu_institution e
   \<and> edu_degree (enrichEducation P edus role e) = edu_degree e
   \<and> edu_field (enrichEducation P edus role e) = edu_field e
   \<and> edu_gpa (enrichEducation P edus role e) = edu_gpa e
   \<and> (populated (edu_description e) \<longrightarrow>
        edu_description (enrichEducation P edus role e) = edu_description e)
   \<and> (\<not> populated (edu_description e) \<longrightarrow>
        edu_description (enrichEducation P edus role e) = Some (generateCourseSummary edus role))
   \<and> (edu_achievements e \<noteq> None \<longrightarrow>
        edu_achievements (enrichEducation P edus role e) = edu_achievements e)
   \<and> (edu_achievements e = None \<longrightarrow>
        edu_achievements (enrichEducation P edus role e) =
          Some (generateEducationAchievements P e))"
  by (simp add: enrichEducation_def orElse_populated orElse_missing orElseList_present)
    (simp add: orElseList_def)

lemma list_all2_map_self: "(\<And>x. x \<in> set xs \<Longrightarrow> R x (f x)) \<Longrightarrow> list_all2 R xs (map f xs)"
  by (induction xs) simp_all

lemma enriched_list:
  "(\<And>x. R x (f x)) \<Longrightarrow> list_all2 R (orElseList xs []) (orElseList (map_option (map f) xs) [])"
  by (cases xs) (simp_all add: orElseList_def list_all2_map_self)


lemma projectEnriched_enrich: "projectEnriched sk p (enrichProject sk p)"
  using enrichProject_frame [of sk p]
  by (simp add: projectEnriched_def keptOrFilled_def keptOrFilledList_def)

lemma achievementEnriched_enrich: "achievementEnriched a (enrichAchievement a)"
  using enrichAchievement_frame [of a]
  by (simp add: achievementEnriched_def keptOrFilled_def)

lemma educationEnriched_enrich:
  "educationEnriched P edus role e (enrichEducation P edus role e)"
  using enrichEducation_frame [of P edus role e]
  by (simp add: educationEnriched_def keptOrFilled_def keptOrFilledList_def)

lemma rel_option_map_self:
  "(\<And>x. R x (f x)) \<Longrightarrow> rel_option (list_all2 R) xs (map_option (map f) xs)"
  by (cases xs) (simp_all add: list_all2_map_self)

text \<open>
  C9. In the local resume enrichment and in the local enrichment of sections, every project,
  achievement and education entry of the request has its enriched copy at the same place:
  the fields the service does not generate are the same, a description that was populated
  and a list of outcomes or achievements that was there are unchanged, and the generated
  value stands exactly where the field was missing or empty.
\<close>

theorem local_enrichment_fills_gaps:
  "list_all2 (projectEnriched (skills data))
     (orElseList (projects data) []) (ec_projects (enhancedContent P data))
   \<and> list_all2 achievementEnriched
     (orElseList (achievements data) []) (ec_achievements (enhancedContent P data))
   \<and> list_all2 (educationEnriched P (education data) (Some (effectiveRole data)))
     (orElseList (education data) []) (ec_education (enhancedContent P data))
   \<and> rel_option (list_all2 (projectEnriched (skills sections)))
     (projects sections) (es_projects (enhancedSections sections role))
   \<and> rel_option (list_all2 achievementEnriched)
     (achievements sections) (es_achievements (enhancedSections sections role))"
proof -
  have 1: "list_all2 (projectEnriched (skills data))
     (orElseList (projects data) []) (ec_projects (enhancedContent P data))"
    by (simp add: enhancedContent_def Let_def enriched_list projectEnriched_enrich)
  have 2: "list_all2 achievementEnriched
     (orElseList (achievements data) []) (ec_achievements (enhancedContent P data))"
    by (simp add: enhancedContent_def Let_def enriched_list achievementEnriched_enrich)
  have 3: "list_all2 (educationEnriched P (education data) (Some (effectiveRole data)))
     (orElseList (education data) []) (ec_education (enhancedContent P data))"
    by (simp add: enhancedContent_def Let_def enriched_list educationEnriched_enrich)
  have 4: "rel_option (list_all2 (projectEnriched (skills sections)))
     (projects sections) (es_projects (enhancedSections sections role))"
    by (simp add: enhancedSections_def rel_option_map_self projectEnriched_enrich)
  have 5: "rel_option (list_all2 achievementEnriched)
     (achievements sections) (es_achievements (enhancedSections sections role))"
    by (simp add: enhancedSections_def rel_option_map_self achievementEnriched_enrich)
  from 1 2 3 4 5 show ?thesis by simp
qed

theorem local_enrichment_fills_gaps_witness:
  "proj_description (hd (ec_projects (enhancedContent samplePlatform fullResume)))
     = Some ''My own words''
   \<and> proj_outcomes (hd (ec_projects (enhancedContent samplePlatform fullResume)))
     = Some (generateProjectOutcomes sampleProject)
   \<and> ach_description (hd (ec_achievements (enhancedContent samplePlatform fullResume)))
     = Some (enhanceAchievementDescription sampleAchievement)
   \<and> edu_description (hd (ec_education (enhancedContent samplePlatform fullResume)))
     = Some ''Thesis on compilers''"
proof -
  have p: "orElseList (projects fullResume) [] = [sampleProject]"
    "orElseList (achievements fullResume) [] = [sampleAchievement]"
    "orElseList (education fullResume) [] = [sampleEducation]"
    by (simp_all add: fullResume_def orElseList_def)
  have d: "populated (proj_description sampleProject)" "proj_outcomes sampleProject = None"
    "\<not> populated (ach_description sampleAchievement)"
    "populated (edu_description sampleEducation)"
    "proj_description sampleProject = Some ''My own words''"
    "edu_description sampleEducation = Some ''Thesis on compilers''"
    by (simp_all add: sampleProject_def sampleAchievement_def sampleEducation_def populated_def)
  show ?thesis
    using local_enrichment_fills_gaps [of fullResume samplePlatform fullResume None] p d
    by (auto simp: list_all2_Cons1 projectEnriched_def achievementEnriched_def
        educationEnriched_def keptOrFilled_def keptOrFilledList_def)
qed

section \<open>Properties of the orchestrator\<close>

lemma isAvailable_circuit:
  "circuitState (snd (isAvailable day s)) = circuitState s"
  by (simp add: isAvailable_def isDailyLimitReached_def Let_def split: prod.splits)


lemma isAvailable_no_key: "\<not> genAI s \<Longrightarrow> isAvailable day s = (False, s)"
  by (simp add: isAvailable_def)

lemma retryLoop_two:
  "retryLoop h E 2 0 s =
     (case h (remote E 0) of
        Inr r \<Rightarrow> (Inr r, s\<lparr>remoteCalls := remoteCalls s + 1\<rparr>)
      | Inl e \<Rightarrow>
          (case h (remote E (Suc 0)) of
             Inr r \<Rightarrow> (Inr r, s\<lparr>remoteCalls := remoteCalls s + 2\<rparr>)
           | Inl e' \<Rightarrow> (Inl e', s\<lparr>remoteCalls := remoteCalls s + 2\<rparr>)))"
  by (simp add: retryLoop.simps [of h E 2 0] retryLoop.simps [of h E 2 "Suc 0"] Let_def
      split: sum.splits)






lemma isAvailable_pair:
  "isAvailable day s = (fst (isAvailable day s), snd (isAvailable day s))"
  by simp

lemma computeATSScore_unfold:
  "computeATSScore P E data role s =
     (if fst (isAvailable (calendarDay E) s)
         \<and> circuitState (snd (isAvailable (calendarDay E) s)) \<noteq> OPEN
      then (case fst (withCircuitBreaker (clockAtEntry E) (clockLater E)
                        (computeATSScoreWithAI P E) (snd (isAvailable (calendarDay E) s))) of
              Inr result \<Rightarrow> Inr result
            | Inl err \<Rightarrow> Inr (computeATSScoreLocally P E data role),
            snd (withCircuitBreaker (clockAtEntry E) (clockLater E)
                   (computeATSScoreWithAI P E) (snd (isAvailable (calendarDay E) s))))
      else (Inr (computeATSScoreLocally P E data role), snd (isAvailable (calendarDay E) s)))"
  by (simp add: computeATSScore_def split: prod.splits sum.splits)















lemma scrubJsonText_empty_object: "scrubJsonText (trim ''{}'') = ''{}''"
proof -
  have t: "trim ''{}'' = ''{}''" by (simp add: scrub_eval)
  have "scrubJsonText ''{}'' = ''{}''"
    by (rule scrubJsonText_fixed) (simp_all add: scrub_eval)
  with t show ?thesis by simp
qed

lemma scrubJsonText_scoreText: "scrubJsonText (trim scoreText) = scoreText"
proof -
  have 0: "trim scoreText = scoreText" by (simp add: scoreText_def scrub_eval)
  have 1: "stripClosingFence (stripOpeningFence scoreText) = scoreText"
    by (simp add: scoreText_def scrub_eval)
  have 3: "fixEscapedQuotes scoreText = scoreText" by (simp add: scoreText_def scrub_eval)
  have 4: "dropTrailingCommas scoreText = scoreText" by (simp add: scoreText_def scrub_eval)
  have 5: "insertMissingCommas scoreText = scoreText" by (simp add: scoreText_def scrub_eval)
  have 6: "stripControl scoreText = scoreText" by (simp add: scoreText_def scrub_eval)
  have 7: "completeDelimiters scoreText = scoreText" by (simp add: scoreText_def scrub_eval)
  have 8: "joinSplitStrings scoreText = scoreText" by (simp add: scoreText_def scrub_eval)
  have 9: "closeOpenString scoreText = scoreText" by (simp add: scoreText_def scrub_eval)
  show ?thesis
    unfolding scrubJsonText_def Let_def 0 1 3 4 5 6 7 8 9 ..
qed

lemma scoreText_not_empty_object: "scoreText \<noteq> ''{}''"
  by (simp add: scoreText_def)

lemma newService_available:
  "isAvailable day (newService True day) = (True, newService True day)"
  by (simp add: isAvailable_def isDailyLimitReached_def newService_def)

lemma withRateLimit_circuit: "circuitState (withRateLimit t s) = circuitState s"
  by (simp add: withRateLimit_def)

lemma atsFromReply_score:
  "atsFromReply samplePlatform (Answer scoreText) =
     Inr (JObj [(''score'', JNum 82), (''summary'', JStr []), (''keywordsMatched'', JArr []),
                (''keywordsMissing'', JArr []), (''suggestions'', JArr []),
                (''computationMethod'', JStr ''ai'')])"
  by (simp add: atsFromReply_def scrubJsonText_scoreText samplePlatform_def
      scoreText_not_empty_object normalizeATS_def getProp_def normalizedScore_def
      arrayOrEmpty_def isArray_def truthy_def round_def)

lemma resumeFromReply_empty_object:
  "resumeFromReply samplePlatform bareResume (Answer ''{}'') =
     Inr (JObj [(''success'', JBool True), (''generatedContent'', JObj []),
                (''aiPrompt'', JStr ''Generated resume for Professional role''),
                (''generationMethod'', JStr ''ai'')])"
  by (simp add: resumeFromReply_def scrubJsonText_empty_object samplePlatform_def
      effectiveRole_def bareResume_def orElse_def)

text \<open>
  C6, the code at an input where it departs from the claim. On a new service with an API
  key the ATS operation calls the remote model once and returns its normalised answer, and
  the daily counter is still 0: no slot was reserved. The resume-content operation on the
  same service reserves one slot for its call.
\<close>

theorem ats_call_reserves_no_slot:
  "fst (computeATSScore samplePlatform scoringEnv bareResume None
          (newService True ''Mon Nov 02 2026''))
     = Inr (JObj [(''score'', JNum 82), (''summary'', JStr []), (''keywordsMatched'', JArr []),
                  (''keywordsMissing'', JArr []), (''suggestions'', JArr []),
                  (''computationMethod'', JStr ''ai'')])
   \<and> remoteCalls (snd (computeATSScore samplePlatform scoringEnv bareResume None
                          (newService True ''Mon Nov 02 2026''))) = 1
   \<and> dailyCallCount (snd (computeATSScore samplePlatform scoringEnv bareResume None
                             (newService True ''Mon Nov 02 2026''))) = 0
   \<and> remoteCalls (snd (generateResumeContent samplePlatform sampleEnv bareResume
                          (newService True ''Mon Nov 02 2026''))) = 1
   \<and> dailyCallCount (snd (generateResumeContent samplePlatform sampleEnv bareResume
                             (newService True ''Mon Nov 02 2026''))) = 1"
proof -
  let ?s = "newService True ''Mon Nov 02 2026''"
  have day: "calendarDay scoringEnv = ''Mon Nov 02 2026''"
    "calendarDay sampleEnv = ''Mon Nov 02 2026''"
    by (simp_all add: scoringEnv_def sampleEnv_def)
  have closed: "circuitState ?s = CLOSED" by (simp add: newService_def)
  have ai: "computeATSScoreWithAI samplePlatform scoringEnv ?s =
      (Inr (JObj [(''score'', JNum 82), (''summary'', JStr []), (''keywordsMatched'', JArr []),
                  (''keywordsMissing'', JArr []), (''suggestions'', JArr []),
                  (''computationMethod'', JStr ''ai'')]),
       ?s\<lparr>remoteCalls := remoteCalls ?s + 1\<rparr>)"
    by (simp add: computeATSScoreWithAI_def retryLoop_two scoringEnv_def sampleEnv_def
        atsFromReply_score)
  have ats: "computeATSScore samplePlatform scoringEnv bareResume None ?s =
      (Inr (JObj [(''score'', JNum 82), (''summary'', JStr []), (''keywordsMatched'', JArr []),
                  (''keywordsMissing'', JArr []), (''suggestions'', JArr []),
                  (''computationMethod'', JStr ''ai'')]),
       ?s\<lparr>remoteCalls := remoteCalls ?s + 1\<rparr>)"
    by (simp add: computeATSScore_unfold day newService_available closed withCircuitBreaker_def ai)
  have info: "personalInfo bareResume \<noteq> None" by (simp add: bareResume_def)
  have gen: "generateResumeContentWithAI samplePlatform sampleEnv bareResume
               (withRateLimit (clockLater sampleEnv) ?s) =
      (Inr (JObj [(''success'', JBool True), (''generatedContent'', JObj []),
                  (''aiPrompt'', JStr ''Generated resume for Professional role''),
                  (''generationMethod'', JStr ''ai'')]),
       (withRateLimit (clockLater sampleEnv) ?s)
         \<lparr>remoteCalls := remoteCalls (withRateLimit (clockLater sampleEnv) ?s) + 1\<rparr>)"
    using info
    by (simp add: generateResumeContentWithAI_def retryLoop_two resumeFromReply_empty_object
        sampleEnv_def)
  have miss: "cache ?s (getCacheKey bareResume) = None" by (simp add: newService_def)
  have res: "snd (generateResumeContent samplePlatform sampleEnv bareResume ?s) =
      cacheResult (getCacheKey bareResume)
        (JObj [(''success'', JBool True), (''generatedContent'', JObj []),
               (''aiPrompt'', JStr ''Generated resume for Professional role''),
               (''generationMethod'', JStr ''ai'')])
        ((withRateLimit (clockLater sampleEnv) ?s)
           \<lparr>remoteCalls := remoteCalls (withRateLimit (clockLater sampleEnv) ?s) + 1\<rparr>)"
    using miss
    by (simp add: generateResumeContent_def Let_def day newService_available closed
        withCircuitBreaker_def gen withRateLimit_circuit)
  show ?thesis
    unfolding ats res
    by (simp add: cacheResult_def withRateLimit_def newService_def)
qed





text \<open>
  C2, as the code has it. For resume content the remote result has the fields success,
  generatedContent, aiPrompt and generationMethod (the tag, with value ai), the local result
  the fields success, generatedContent, aiPrompt, enhancements and enhancementMethod (the
  tag, with value local). For the ATS score both results have score, summary,
  keywordsMatched, keywordsMissing, suggestions and the tag computationMethod, and the local
  result has lastComputedAt as well. For the profile summary both results have success,
  summary and objective, and no tag.
\<close>

theorem result_schemas:
  "(resumeFromReply P data r = Inr ai \<longrightarrow>
      fieldNames ai = {''success'', ''generatedContent'', ''aiPrompt'', ''generationMethod''}
    \<and> getProp ai ''generationMethod'' = Inr (JStr ''ai''))
   \<and> fieldNames (enhanceContentLocally P data)
       = {''success'', ''generatedContent'', ''aiPrompt'', ''enhancements'', ''enhancementMethod''}
   \<and> getProp (enhanceContentLocally P data) ''enhancementMethod'' = Inr (JStr ''local'')
   \<and> (atsFromReply P r' = Inr ats \<longrightarrow>
      fieldNames ats = {''score'', ''summary'', ''keywordsMatched'', ''keywordsMissing'',
                        ''suggestions'', ''computationMethod''}
    \<and> getProp ats ''computationMethod'' = Inr (JStr ''ai''))
   \<and> fieldNames (computeATSScoreLocally P E data role)
       = {''score'', ''summary'', ''keywordsMatched'', ''keywordsMissing'', ''suggestions'',
          ''lastComputedAt'', ''computationMethod''}
   \<and> getProp (computeATSScoreLocally P E data role) ''computationMethod'' = Inr (JStr ''local'')
   \<and> fieldNames (projr (fst (profileSummaryCall P E data s)))
       = {''success'', ''summary'', ''objective''}
   \<and> fieldNames (generateProfileSummaryLocally P data) = {''success'', ''summary'', ''objective''}"
proof -
  have 1: "resumeFromReply P data r = Inr ai \<longrightarrow>
      fieldNames ai = {''success'', ''generatedContent'', ''aiPrompt'', ''generationMethod''}
    \<and> getProp ai ''generationMethod'' = Inr (JStr ''ai'')"
    by (auto simp: resumeFromReply_def fieldNames_def getProp_def
        split: reply.splits option.splits)
  have 2: "fieldNames (enhanceContentLocally P data)
       = {''success'', ''generatedContent'', ''aiPrompt'', ''enhancements'', ''enhancementMethod''}"
    "getProp (enhanceContentLocally P data) ''enhancementMethod'' = Inr (JStr ''local'')"
    by (auto simp: enhanceContentLocally_def fieldNames_def getProp_def)
  have 3: "atsFromReply P r' = Inr ats \<longrightarrow>
      fieldNames ats = {''score'', ''summary'', ''keywordsMatched'', ''keywordsMissing'',
                        ''suggestions'', ''computationMethod''}
    \<and> getProp ats ''computationMethod'' = Inr (JStr ''ai'')"
    by (auto simp: atsFromReply_def normalizeATS_def fieldNames_def getProp_def
        split: reply.splits option.splits sum.splits)
  have 4: "fieldNames (computeATSScoreLocally P E data role)
       = {''score'', ''summary'', ''keywordsMatched'', ''keywordsMissing'', ''suggestions'',
          ''lastComputedAt'', ''computationMethod''}"
    "getProp (computeATSScoreLocally P E data role) ''computationMethod'' = Inr (JStr ''local'')"
    by (auto simp: computeATSScoreLocally_def fieldNames_def getProp_def Let_def)
  have 5: "fieldNames (generateProfileSummaryLocally P data)
      = {''success'', ''summary'', ''objective''}"
    by (auto simp: generateProfileSummaryLocally_def fieldNames_def)
  have 6: "fieldNames (projr (fst (profileSummaryCall P E data s)))
       = {''success'', ''summary'', ''objective''}"
    using 5 by (auto simp: profileSummaryCall_def fieldNames_def Let_def split: reply.splits)
  from 1 2 3 4 5 6 show ?thesis by blast
qed

theorem result_schemas_witness:
  "fieldNames (JObj [(''success'', JBool True), (''generatedContent'', JObj []),
                     (''aiPrompt'', JStr ''Generated resume for Professional role''),
                     (''generationMethod'', JStr ''ai'')])
     = {''success'', ''generatedContent'', ''aiPrompt'', ''generationMethod''}
   \<and> fieldNames (JObj [(''score'', JNum 82), (''summary'', JStr []),
                       (''keywordsMatched'', JArr []), (''keywordsMissing'', JArr []),
                       (''suggestions'', JArr []), (''computationMethod'', JStr ''ai'')])
     = {''score'', ''summary'', ''keywordsMatched'', ''keywordsMissing'', ''suggestions'',
        ''computationMethod''}"
proof -
  let ?ai = "JObj [(''success'', JBool True), (''generatedContent'', JObj []),
                   (''aiPrompt'', JStr ''Generated resume for Professional role''),
                   (''generationMethod'', JStr ''ai'')]"
  let ?ats = "JObj [(''score'', JNum 82), (''summary'', JStr []),
                    (''keywordsMatched'', JArr []), (''keywordsMissing'', JArr []),
                    (''suggestions'', JArr []), (''computationMethod'', JStr ''ai'')]"
  note all = result_schemas [of samplePlatform bareResume "Answer ''{}''" ?ai
      "Answer scoreText" ?ats sampleEnv None "newService True ''Mon Nov 02 2026''"]
  have "resumeFromReply samplePlatform bareResume (Answer ''{}'') = Inr ?ai \<longrightarrow>
      fieldNames ?ai = {''success'', ''generatedContent'', ''aiPrompt'', ''generationMethod''}
      \<and> getProp ?ai ''generationMethod'' = Inr (JStr ''ai'')"
    using all by (rule conjunct1)
  then have 1: "fieldNames ?ai
      = {''success'', ''generatedContent'', ''aiPrompt'', ''generationMethod''}"
    using resumeFromReply_empty_object by (elim impE conjE) assumption+
  have "atsFromReply samplePlatform (Answer scoreText) = Inr ?ats \<longrightarrow>
      fieldNames ?ats = {''score'', ''summary'', ''keywordsMatched'', ''keywordsMissing'',
                         ''suggestions'', ''computationMethod''}
      \<and> getProp ?ats ''computationMethod'' = Inr (JStr ''ai'')"
    using all by (elim conjE) assumption
  then have 2: "fieldNames ?ats = {''score'', ''summary'', ''keywordsMatched'',
      ''keywordsMissing'', ''suggestions'', ''computationMethod''}"
    using atsFromReply_score by (elim impE conjE) assumption+
  from 1 2 show ?thesis by (rule conjI)
qed

text \<open>
  C2 as stated fails: with the provenance tags set aside, the local result of resume-content
  generation has the field enhancements, which the remote result for the same request does
  not have, and the local ATS result has the field lastComputedAt, which the remote one does
  not have.
\<close>

theorem schemas_differ_counterexample:
  "resumeFromReply samplePlatform bareResume (Answer ''{}'')
     = Inr (JObj [(''success'', JBool True), (''generatedContent'', JObj []),
                  (''aiPrompt'', JStr ''Generated resume for Professional role''),
                  (''generationMethod'', JStr ''ai'')])
   \<and> fieldNames (JObj [(''success'', JBool True), (''generatedContent'', JObj []),
                       (''aiPrompt'', JStr ''Generated resume for Professional role''),
                       (''generationMethod'', JStr ''ai'')]) - provenanceTags
     \<noteq> fieldNames (enhanceContentLocally samplePlatform bareResume) - provenanceTags
   \<and> atsFromReply samplePlatform (Answer scoreText)
     = Inr (JObj [(''score'', JNum 82), (''summary'', JStr []), (''keywordsMatched'', JArr []),
                  (''keywordsMissing'', JArr []), (''suggestions'', JArr []),
                  (''computationMethod'', JStr ''ai'')])
   \<and> fieldNames (JObj [(''score'', JNum 82), (''summary'', JStr []),
                       (''keywordsMatched'', JArr []), (''keywordsMissing'', JArr []),
                       (''suggestions'', JArr []), (''computationMethod'', JStr ''ai'')])
         - provenanceTags
     \<noteq> fieldNames (computeATSScoreLocally samplePlatform sampleEnv bareResume None)
         - provenanceTags"
proof -
  have a: "''enhancements'' \<in> fieldNames (enhanceContentLocally samplePlatform bareResume)
      - provenanceTags"
    by (simp add: enhanceContentLocally_def fieldNames_def provenanceTags_def)
  have b: "''enhancements'' \<notin> fieldNames (JObj [(''success'', JBool True),
      (''generatedContent'', JObj []),
      (''aiPrompt'', JStr ''Generated resume for Professional role''),
      (''generationMethod'', JStr ''ai'')]) - provenanceTags"
    by (simp add: fieldNames_def)
  have c: "''lastComputedAt'' \<in>
      fieldNames (computeATSScoreLocally samplePlatform sampleEnv bareResume None)
      - provenanceTags"
    by (simp add: computeATSScoreLocally_def fieldNames_def provenanceTags_def Let_def)
  have d: "''lastComputedAt'' \<notin> fieldNames (JObj [(''score'', JNum 82), (''summary'', JStr []),
                       (''keywordsMatched'', JArr []), (''keywordsMissing'', JArr []),
                       (''suggestions'', JArr []), (''computationMethod'', JStr ''ai'')])
         - provenanceTags"
    by (simp add: fieldNames_def)
  have e: "\<And>x A B. x \<in> B \<Longrightarrow> x \<notin> A \<Longrightarrow> A \<noteq> (B :: string set)" by blast
  show ?thesis
    by (intro conjI resumeFromReply_empty_object atsFromReply_score e [OF a b] e [OF c d])
qed

section \<open>What the wrapped calls leave alone\<close>

text \<open>
  The retry loop changes nothing of the service but the count of remote calls, so the
  wrapped calls of the ATS and resume-content operations leave the breaker's fields alone,
  as the theorems about the breaker assume of a wrapped call.
\<close>

lemma retryLoop_frame:
  "\<exists>n. snd (retryLoop h E maxRetries retryCount s) = s\<lparr>remoteCalls := n\<rparr>"
proof (induction h E maxRetries retryCount s rule: retryLoop.induct)
  case (1 h E maxRetries retryCount s)
  show ?case
  proof (cases "retryCount < maxRetries")
    case False
    then have "snd (retryLoop h E maxRetries retryCount s) = s\<lparr>remoteCalls := remoteCalls s\<rparr>"
      by (subst retryLoop.simps) simp
    then show ?thesis by blast
  next
    case True
    let ?s1 = "s\<lparr>remoteCalls := remoteCalls s + 1\<rparr>"
    show ?thesis
    proof (cases "h (remote E retryCount)")
      case (Inr r)
      with True have "snd (retryLoop h E maxRetries retryCount s) = s\<lparr>remoteCalls := remoteCalls s + 1\<rparr>"
        by (subst retryLoop.simps) simp
      then show ?thesis by blast
    next
      case (Inl e)
      show ?thesis
      proof (cases "retryCount = maxRetries - 1")
        case last: True
        with True Inl have "snd (retryLoop h E maxRetries retryCount s)
            = s\<lparr>remoteCalls := remoteCalls s + 1\<rparr>"
          by (subst retryLoop.simps) simp
        then show ?thesis by blast
      next
        case more: False
        obtain n where "snd (retryLoop h E maxRetries (retryCount + 1) ?s1) = ?s1\<lparr>remoteCalls := n\<rparr>"
          using "1.IH" [OF True refl Inl more] by blast
        with True Inl more have "snd (retryLoop h E maxRetries retryCount s) = s\<lparr>remoteCalls := n\<rparr>"
          by (subst retryLoop.simps) simp
        then show ?thesis by blast
      qed
    qed
  qed
qed

lemma computeATSScoreWithAI_keepsBreaker: "keepsBreaker (computeATSScoreWithAI P E)"
proof -
  have "\<And>s. \<exists>n. snd (computeATSScoreWithAI P E s) = s\<lparr>remoteCalls := n\<rparr>"
    by (simp add: computeATSScoreWithAI_def retryLoop_frame)
  then show ?thesis
    unfolding keepsBreaker_def by (metis service.select_convs service.surjective
        service.update_convs(13))
qed


lemma resume_call_keepsBreaker:
  "keepsBreaker (\<lambda>s. generateResumeContentWithAI P E data (withRateLimit t s))"
proof -
  have "\<And>s. \<exists>n. snd (generateResumeContentWithAI P E data (withRateLimit t s))
      = (withRateLimit t s)\<lparr>remoteCalls := n\<rparr>"
  proof -
    fix s :: service
    show "\<exists>n. snd (generateResumeContentWithAI P E data (withRateLimit t s))
      = (withRateLimit t s)\<lparr>remoteCalls := n\<rparr>"
    proof (cases "personalInfo data = None")
      case True
      then have "snd (generateResumeContentWithAI P E data (withRateLimit t s))
          = (withRateLimit t s)\<lparr>remoteCalls := remoteCalls (withRateLimit t s)\<rparr>"
        by (simp add: generateResumeContentWithAI_def)
      then show ?thesis by blast
    next
      case False
      then have "generateResumeContentWithAI P E data (withRateLimit t s)
          = retryLoop (resumeFromReply P data) E 2 0 (withRateLimit t s)"
        by (auto simp: generateResumeContentWithAI_def)
      then show ?thesis by (simp add: retryLoop_frame)
    qed
  qed
  then have "\<And>s. \<exists>n. snd (generateResumeContentWithAI P E data (withRateLimit t s))
      = s\<lparr>lastApiCall := t, dailyCallCount := dailyCallCount s + 1, remoteCalls := n\<rparr>"
    by (simp add: withRateLimit_def)
  then show ?thesis
    unfolding keepsBreaker_def by (metis service.select_convs service.surjective
        service.update_convs)
qed

text \<open>
  Whatever the request and the replies, the ATS operation leaves the daily counter as the
  availability check left it: it never reserves a slot.
\<close>

lemma withCircuitBreaker_dailyCallCount:
  assumes "\<And>x. dailyCallCount (snd (fn x)) = dailyCallCount x"
  shows "dailyCallCount (snd (withCircuitBreaker now later fn s)) = dailyCallCount s"
proof (cases "circuitState s = OPEN \<and> \<not> nextTry s < now")
  case True
  then show ?thesis by (simp add: withCircuitBreaker_def)
next
  case False
  let ?s1 = "if circuitState s = OPEN then s\<lparr>circuitState := HALF_OPEN\<rparr> else s"
  have d: "dailyCallCount (snd (fn ?s1)) = dailyCallCount s"
    using assms [of ?s1] by simp
  show ?thesis
  proof (cases "fn ?s1")
    case (Pair out s2)
    with d have "dailyCallCount s2 = dailyCallCount s" by simp
    with False Pair show ?thesis
      by (cases out)
        (simp_all add: withCircuitBreaker_def Let_def recordFailure_def resetCircuit_def)
  qed
qed

lemma computeATSScore_never_reserves:
  "dailyCallCount (snd (computeATSScore P E resumeData targetRole s))
     = dailyCallCount (snd (isAvailable (calendarDay E) s))"
proof -
  have "\<And>x. dailyCallCount (snd (computeATSScoreWithAI P E x)) = dailyCallCount x"
  proof -
    fix x :: service
    obtain n where "snd (computeATSScoreWithAI P E x) = x\<lparr>remoteCalls := n\<rparr>"
      using retryLoop_frame [of "atsFromReply P" E 2 0 x]
      by (auto simp: computeATSScoreWithAI_def)
    then show "dailyCallCount (snd (computeATSScoreWithAI P E x)) = dailyCallCount x" by simp
  qed
  then have "dailyCallCount (snd (withCircuitBreaker (clockAtEntry E) (clockLater E)
                (computeATSScoreWithAI P E) (snd (isAvailable (calendarDay E) s))))
      = dailyCallCount (snd (isAvailable (calendarDay E) s))"
    by (rule withCircuitBreaker_dailyCallCount)
  then show ?thesis by (simp add: computeATSScore_unfold)
qed

text \<open>
  While the breaker is open the operations do not reach the remote model at all: the
  availability check fails before any call.
\<close>

lemma isAvailable_when_open: "circuitState s = OPEN \<Longrightarrow> isAvailable day s = (False, s)"
  by (simp add: isAvailable_def)

lemma open_breaker_no_remote_call:
  assumes "circuitState s = OPEN"
  shows "remoteCalls (snd (generateResumeContent P E data s)) = remoteCalls s
       \<and> remoteCalls (snd (computeATSScore P E data role s)) = remoteCalls s
       \<and> remoteCalls (snd (generateProfileSummary P E data s)) = remoteCalls s
       \<and> remoteCalls (snd (enhanceMultipleSections E data role s)) = remoteCalls s
       \<and> remoteCalls (snd (enhanceSection P E name s)) = remoteCalls s"
proof -
  have a: "isAvailable (calendarDay E) s = (False, s)"
    using assms by (rule isAvailable_when_open)
  have 1: "remoteCalls (snd (generateResumeContent P E data s)) = remoteCalls s"
    by (cases "cache s (getCacheKey data)")
      (simp_all add: generateResumeContent_def Let_def a cacheResult_def)
  have 2: "remoteCalls (snd (computeATSScore P E data role s)) = remoteCalls s"
    by (simp add: computeATSScore_def a)
  have 3: "remoteCalls (snd (generateProfileSummary P E data s)) = remoteCalls s"
    by (simp add: generateProfileSummary_def a)
  have 4: "remoteCalls (snd (enhanceMultipleSections E data role s)) = remoteCalls s"
    by (simp add: enhanceMultipleSections_def a)
  have 5: "remoteCalls (snd (enhanceSection P E name s)) = remoteCalls s"
    by (simp add: enhanceSection_def a)
  from 1 2 3 4 5 show ?thesis by simp
qed

end
